theory Spec2Isabelle
  imports Complex_Main
begin

section \<open>Quantum k-means (qkmeans.py): a shallow embedding\<close>

text \<open>
  The module estimates distances between data points and cluster centres by building
  swap-test circuits, sending them to a backend and decoding the histograms that come
  back; on top of that sit the batching of circuits into jobs, the qk-means++ seeding
  and the fit/predict loop.

  Conventions of the embedding.
  \<^item> Python floats are read as \<^typ>\<open>real\<close>: rounding, NaN and infinities are not modelled.
  \<^item> A one-dimensional array is a list, a two-dimensional array the list of its rows.
  \<^item> Every exception the code can raise is a value \<open>Inl e\<close> of \<open>error + 'a\<close>; a function
    that can fall off its end returns an \<open>option\<close>, \<open>None\<close> being Python's \<open>None\<close>.
  \<^item> The backend is the opaque collaborator of the module: a function from a circuit to
    the histogram it answers with (one histogram per submitted circuit, in order, the
    same circuit always answered alike), and the job size limit \<open>max_experiments\<close>.
\<close>

subsection \<open>Errors, vectors and Python indexing\<close>

text \<open>
  The exceptions of the Python run time that the modelled code can raise. \<open>ObjectArray\<close>
  is not an exception: it marks a distance matrix that numpy builds with \<open>dtype=object\<close>
  (its cells are \<open>None\<close> or lists, not floats). The embedding does not follow such a
  matrix into the arithmetic of its consumers.
\<close>

datatype error =
    IndexError | KeyError | TypeError | ValueError | ZeroDivisionError | OverflowError
  | NotImplementedError | UnboundLocalError | AttributeError | ObjectArray

type_synonym vector = "real list"

text \<open>\<open>xs[i]\<close> for a non-negative \<open>i\<close>.\<close>

definition item :: "'a list \<Rightarrow> nat \<Rightarrow> error + 'a" where
  "item xs i = (if i < length xs then Inr (xs ! i) else Inl IndexError)"

text \<open>\<open>xs[i]\<close> for any integer \<open>i\<close>: a negative index counts from the end.\<close>

definition py_get :: "'a list \<Rightarrow> int \<Rightarrow> error + 'a" where
  "py_get xs i =
     (if 0 \<le> i \<and> i < int (length xs) then Inr (xs ! nat i)
      else if i < 0 \<and> - int (length xs) \<le> i then Inr (xs ! nat (int (length xs) + i))
      else Inl IndexError)"

text \<open>
  A list comprehension whose elements can raise: evaluation runs left to right and stops
  at the first exception.
\<close>

fun sequence :: "(error + 'a) list \<Rightarrow> error + 'a list" where
  "sequence [] = Inr []"
| "sequence (r # rs) =
     (case r of
        Inl e \<Rightarrow> Inl e
      | Inr v \<Rightarrow> (case sequence rs of Inl e \<Rightarrow> Inl e | Inr vs \<Rightarrow> Inr (v # vs)))"

text \<open>
  \<open>A.shape[1]\<close> of a two-dimensional array given by its rows. An array without rows does
  not occur where this is read (every chunk of a batch holds a point); it is read as
  having no columns.
\<close>

definition ncols :: "'a list list \<Rightarrow> nat" where
  "ncols rows = (case rows of [] \<Rightarrow> 0 | r # _ \<Rightarrow> length r)"

subsection \<open>Circuits, histograms and the backend\<close>

datatype map_type = Angle | Probability | Other

text \<open>
  The circuit a call of the qiskit builder describes: the sizes of the two registers and
  the instructions in program order. \<open>Initialize v qs\<close> is \<open>qc.initialize(v, qs)\<close>,
  \<open>Reset\<close> is \<open>qc.reset(qr)\<close> on the whole register.
\<close>

datatype gate =
    H nat
  | U3 real real real nat
  | CSwap nat nat nat
  | Initialize "real list" "nat list"
  | Measure nat nat
  | Reset

record circuit =
  n_qubits :: nat
  n_clbits :: nat
  ops :: "gate list"

text \<open>
  A histogram is the dictionary \<open>get_counts()\<close> returns, bitstring to count, as an
  association list: \<open>map_of\<close> is the lookup, the number of distinct keys is \<open>len\<close>.
\<close>

type_synonym counts = "(string \<times> nat) list"

definition py_len :: "counts \<Rightarrow> nat" where
  "py_len data = length (remdups (map fst data))"

record backend =
  get_counts :: "circuit \<Rightarrow> counts"
  max_experiments :: nat

text \<open>\<open>np.angle(re + 1j*im)\<close>.\<close>

definition np_angle :: "real \<Rightarrow> real \<Rightarrow> real" where
  "np_angle re im = Arg (Complex re im)"

subsection \<open>Decoding a histogram\<close>

text \<open>
  The angle paths: \<open>if len(data)==1: return 0.0 else: return data['001']/1024.\<close>
  (and the same test inside the comprehension of the batched path).
\<close>

definition decode_single :: "counts \<Rightarrow> error + real" where
  "decode_single data =
     (if py_len data = 1 then Inr 0
      else case map_of data ''001'' of
             None \<Rightarrow> Inl KeyError
           | Some c \<Rightarrow> Inr (real c / 1024))"

text \<open>
  The batched probability paths: \<open>contained = [key in batch_data ...]\<close>, then
  \<open>data[i][key]/1024 if contained[i]==True else 0.0\<close>.
\<close>

definition decode_contained :: "string \<Rightarrow> counts \<Rightarrow> real" where
  "decode_contained key data =
     (case map_of data key of None \<Rightarrow> 0 | Some c \<Rightarrow> real c / 1024)"

text \<open>The key \<open>'0'*k*2+'1'\<close>.\<close>

definition divergent_key :: "nat \<Rightarrow> string" where
  "divergent_key k = replicate (k * 2) CHR ''0'' @ ''1''"

subsection \<open>The swap-test circuits\<close>

text \<open>The three-qubit circuit of the angle encoding, the same text in both paths.\<close>

definition angle_circuit :: "real \<Rightarrow> real \<Rightarrow> circuit" where
  "angle_circuit theta_1 theta_2 =
     \<lparr>n_qubits = 3, n_clbits = 3,
      ops = [H 0, H 1, H 2, U3 theta_1 pi pi 1, U3 theta_2 pi pi 2,
             CSwap 0 1 2, H 0, Measure 0 0, Reset]\<rparr>"

text \<open>
  The circuit of \<open>distance\<close> for three features with \<open>norm_relevance\<close> (lines 108 to 120):
  the rotation by \<open>ro_2\<close> is written on \<open>qr[1]\<close>.
\<close>

definition norm_circuit_single :: "real \<Rightarrow> real \<Rightarrow> real \<Rightarrow> real \<Rightarrow> circuit" where
  "norm_circuit_single theta_1 ro_1 theta_2 ro_2 =
     \<lparr>n_qubits = 3, n_clbits = 3,
      ops = [H 0, H 1, H 2, U3 theta_1 pi pi 1, U3 ro_1 0 0 1, U3 theta_2 pi pi 2,
             U3 ro_2 0 0 1, CSwap 0 1 2, H 0, Measure 0 0, Reset]\<rparr>"

text \<open>
  The circuit of \<open>batch_distance\<close> for three features (lines 272 to 284): the rotation by
  \<open>ro_2\<close> is written on \<open>qr[2]\<close>.
\<close>

definition norm_circuit_batch :: "real \<Rightarrow> real \<Rightarrow> real \<Rightarrow> real \<Rightarrow> circuit" where
  "norm_circuit_batch theta_1 ro_1 theta_2 ro_2 =
     \<lparr>n_qubits = 3, n_clbits = 3,
      ops = [H 0, H 1, H 2, U3 theta_1 pi pi 1, U3 ro_1 0 0 1, U3 theta_2 pi pi 2,
             U3 ro_2 0 0 2, CSwap 0 1 2, H 0, Measure 0 0, Reset]\<rparr>"

text \<open>
  The circuit of the batched probability encoding on \<open>k\<close> qubits per operand:
  \<open>QuantumRegister(k*2+1)\<close>, \<open>initialize(x,[i+1 for i in range(k)])\<close>,
  \<open>initialize(y,[i+1+k for i in range(k)])\<close>, \<open>cswap(qr[0], qr[1], qr[k+1])\<close>.
  For two features the source writes \<open>initialize(x,1)\<close> and \<open>initialize(y,2)\<close>, which is
  the case \<open>k = 1\<close>.
\<close>

definition probability_circuit :: "nat \<Rightarrow> vector \<Rightarrow> vector \<Rightarrow> circuit" where
  "probability_circuit k x y =
     \<lparr>n_qubits = k * 2 + 1, n_clbits = k * 2 + 1,
      ops = [Initialize x (map (\<lambda>i. i + 1) [0..<k]),
             Initialize y (map (\<lambda>i. i + 1 + k) [0..<k]),
             H 0, CSwap 0 1 (k + 1), H 0, Measure 0 0, Reset]\<rparr>"

subsection \<open>The unbatched estimator: \<open>distance\<close>\<close>

text \<open>
  Lines 53 to 149. In the probability branch \<open>qubits = np.ceil(np.log2(x.size))\<close> is a
  numpy float, and \<open>np.zeros(2**qubits)\<close> raises \<open>TypeError\<close> on a float size before any
  circuit is built, whatever the operands are. An angle call with a size that neither
  test accepts, and a call with an unknown \<open>map_type\<close>, fall off the end of the function:
  the result is \<open>None\<close>.
\<close>

definition distance :: "vector \<Rightarrow> vector \<Rightarrow> backend \<Rightarrow> map_type \<Rightarrow> bool \<Rightarrow> error + real option" where
  "distance x y bk mt norm_relevance =
     (case mt of
        Angle \<Rightarrow>
          if length x = 2 then
            (if length y < 2 then Inl IndexError
             else
               let theta_1 = np_angle (x ! 0) (x ! 1);
                   theta_2 = np_angle (y ! 0) (y ! 1)
               in map_sum id Some
                    (decode_single (get_counts bk (angle_circuit theta_1 theta_2))))
          else if length x = 3 \<and> norm_relevance then
            (if length y < 3 then Inl IndexError
             else
               let theta_1 = np_angle (x ! 0) (x ! 1);
                   theta_2 = np_angle (y ! 0) (y ! 1);
                   ro_1 = x ! 2 * pi;
                   ro_2 = y ! 2 * pi
               in map_sum id Some
                    (decode_single
                       (get_counts bk (norm_circuit_single theta_1 ro_1 theta_2 ro_2))))
          else Inr None
      | Probability \<Rightarrow> Inl TypeError
      | Other \<Rightarrow> Inr None)"

subsection \<open>The batched estimator on one batch: \<open>batch_distance\<close>\<close>

text \<open>
  \<open>int(np.log2(n))\<close> for \<open>n \<ge> 1\<close>, and the test \<open>np.log2(n).is_integer()\<close>, read on exact
  numbers: the floor of the binary logarithm, and the test for a power of two.
\<close>

fun ilog2 :: "nat \<Rightarrow> nat" where
  "ilog2 n = (if n < 2 then 0 else Suc (ilog2 (n div 2)))"

declare ilog2.simps [simp del]

definition is_pow2 :: "nat \<Rightarrow> bool" where
  "is_pow2 n = (0 < n \<and> 2 ^ ilog2 n = n)"

text \<open>\<open>v = np.zeros(2**k); v[:len(p)] = p\<close>: assigning more values than the slice holds
  raises \<open>ValueError\<close>.\<close>

definition pad :: "nat \<Rightarrow> vector \<Rightarrow> error + vector" where
  "pad k p = (if length p \<le> 2 ^ k then Inr (p @ replicate (2 ^ k - length p) 0)
              else Inl ValueError)"

text \<open>The loops over the points of a chunk that build the angle circuits.\<close>

definition angle_circuit_of :: "vector \<Rightarrow> vector \<Rightarrow> error + circuit" where
  "angle_circuit_of y x =
     (if length x < 2 \<or> length y < 2 then Inl IndexError
      else Inr (angle_circuit (np_angle (x ! 0) (x ! 1)) (np_angle (y ! 0) (y ! 1))))"

definition norm_circuit_of :: "vector \<Rightarrow> vector \<Rightarrow> error + circuit" where
  "norm_circuit_of y x =
     (if length x < 3 \<or> length y < 3 then Inl IndexError
      else Inr (norm_circuit_batch (np_angle (x ! 0) (x ! 1)) (x ! 2 * pi / 2)
                  (np_angle (y ! 0) (y ! 1)) (y ! 2 * pi / 2)))"

text \<open>The keys of a dictionary, each once, as a loop over the dictionary visits them.\<close>

definition py_keys :: "counts \<Rightarrow> string list" where
  "py_keys data = remdups (map fst data)"

text \<open>\<open>key in s\<close> on two strings: \<open>key\<close> occurs in \<open>s\<close> as a contiguous piece.\<close>

definition py_in_str :: "string \<Rightarrow> string \<Rightarrow> bool" where
  "py_in_str key s =
     list_ex (\<lambda>i. take (length key) (drop i s) = key) [0..<Suc (length s - length key)]"

text \<open>
  \<open>execute(qcs, backend, shots=1024)\<close>, \<open>get_counts()\<close>, and the comprehension of the
  angle branches. For a job of several circuits \<open>get_counts()\<close> is the list of their
  histograms. For a job of one circuit it is the histogram itself (lines 91 to 95 of
  \<open>distance\<close> read it so), and the comprehension runs over its keys: on a key of one
  character it gives \<open>0.0\<close>, on any other \<open>batch_data['001']\<close> indexes a string by a string
  and raises \<open>TypeError\<close>.
\<close>

definition run_angle :: "backend \<Rightarrow> (error + circuit) list \<Rightarrow> error + real list option" where
  "run_angle bk built =
     (case sequence built of
        Inl e \<Rightarrow> Inl e
      | Inr qcs \<Rightarrow>
          if length qcs = 1 then
            map_sum id Some
              (sequence (map (\<lambda>key. if length key = 1 then Inr 0 else Inl TypeError)
                           (py_keys (get_counts bk (hd qcs)))))
          else map_sum id Some (sequence (map (\<lambda>qc. decode_single (get_counts bk qc)) qcs)))"

text \<open>
  The same for the probability branches. For a job of one circuit \<open>contained\<close> tells, for
  every key of the histogram, whether the divergent key occurs in it; where it does,
  \<open>data[i]\<close> looks up the number \<open>i\<close> in a dictionary of strings and raises \<open>KeyError\<close>.
\<close>

definition run_probability :: "backend \<Rightarrow> nat \<Rightarrow> (error + circuit) list \<Rightarrow> error + real list option" where
  "run_probability bk k built =
     (case sequence built of
        Inl e \<Rightarrow> Inl e
      | Inr qcs \<Rightarrow>
          if length qcs = 1 then
            map_sum id Some
              (sequence (map (\<lambda>key. if py_in_str (divergent_key k) key then Inl KeyError
                                    else Inr 0)
                           (py_keys (get_counts bk (hd qcs)))))
          else Inr (Some (map (\<lambda>qc. decode_contained (divergent_key k) (get_counts bk qc)) qcs)))"

text \<open>
  Lines 185 to 404. The batch is the pair of a chunk of points and one centre. The branch
  is chosen by the number of features of the chunk; a branch without a case for the
  \<open>map_type\<close> falls off the end of the function (\<open>None\<close>). In the last branch \<open>qubits\<close> is
  assigned inside the loop and read after it.
\<close>

definition batch_distance :: "vector list \<times> vector \<Rightarrow> backend \<Rightarrow> map_type \<Rightarrow> error + real list option" where
  "batch_distance B bk mt =
     (let chunk = fst B; y = snd B; f = ncols chunk in
      if f = 2 then
        (case mt of
           Angle \<Rightarrow> run_angle bk (map (angle_circuit_of y) chunk)
         | Probability \<Rightarrow>
             run_probability bk 1 (map (\<lambda>x. Inr (probability_circuit 1 x y)) chunk)
         | Other \<Rightarrow> Inr None)
      else if f = 3 then
        (case mt of
           Angle \<Rightarrow> run_angle bk (map (norm_circuit_of y) chunk)
         | Probability \<Rightarrow> Inr None
         | Other \<Rightarrow> Inr None)
      else if is_pow2 f then
        (case mt of
           Angle \<Rightarrow> run_angle bk (map (angle_circuit_of y) chunk)
         | Probability \<Rightarrow>
             run_probability bk (ilog2 f)
               (map (\<lambda>x. Inr (probability_circuit (ilog2 f) x y)) chunk)
         | Other \<Rightarrow> Inr None)
      else
        (case mt of
           Angle \<Rightarrow> run_angle bk (map (angle_circuit_of y) chunk)
         | Probability \<Rightarrow>
             if chunk = [] then Inl UnboundLocalError
             else if f = 0 then Inl OverflowError
             else
               run_probability bk (ilog2 f + 1)
                 (map (\<lambda>point.
                         case pad (ilog2 f + 1) point of
                           Inl e \<Rightarrow> Inl e
                         | Inr x \<Rightarrow>
                             (case pad (ilog2 f + 1) y of
                                Inl e \<Rightarrow> Inl e
                              | Inr y' \<Rightarrow> Inr (probability_circuit (ilog2 f + 1) x y')))
                    chunk)
         | Other \<Rightarrow> Inr None))"

subsection \<open>Batching: \<open>batch_separate\<close>, \<open>batch_collect\<close>, \<open>batch_distances\<close>\<close>

text \<open>
  \<open>np.split(ary, indices)\<close> for a list of indices: the slices between consecutive cut
  points, the first from 0 and the last to the end; a slice whose start is past its end is
  empty.
\<close>

definition np_split :: "'a list \<Rightarrow> nat list \<Rightarrow> 'a list list" where
  "np_split xs idxs =
     map (\<lambda>(s, e). take (e - s) (drop s xs)) (zip (0 # idxs) (idxs @ [length xs]))"

text \<open>
  Lines 151 to 183. \<open>batches_clusters[i::k] = clusters[i]\<close> for every \<open>i < k\<close> puts centre
  \<open>j mod k\<close> at row \<open>j\<close>; \<open>np.repeat(batches_X, k, axis=0)\<close> repeats each chunk \<open>k\<close> times in
  a row. With numpy of the code's time a list of chunks of unequal sizes becomes an
  object array, so the function returns its batches for every batch size that is not 0.
\<close>

definition batch_separate ::
  "vector list \<Rightarrow> vector list \<Rightarrow> nat \<Rightarrow> error + (vector list \<times> vector) list" where
  "batch_separate X clusters max_exp =
     (if length clusters < length X then
        (if max_exp = 0 then Inl ZeroDivisionError
         else
           let n_chunks = (if length X mod max_exp = 0 then length X div max_exp
                           else length X div max_exp + 1);
               batches_X = np_split X (map (\<lambda>i. i * max_exp) [1..<n_chunks]);
               n_rows = n_chunks * length clusters;
               batches_clusters = map (\<lambda>j. clusters ! (j mod length clusters)) [0..<n_rows];
               repeated = concat (map (replicate (length clusters)) batches_X)
           in Inr (map (\<lambda>i. (repeated ! i, batches_clusters ! i)) [0..<n_rows]))
      else Inl NotImplementedError)"

text \<open>
  \<open>np.asarray\<close> on the list of per-batch results: a two-dimensional float array when every
  result is a list and all have one length (an empty list of results gives the empty float
  array), an object array with one cell per batch otherwise.
\<close>

datatype ndarray = Floats "real list list" | Objects "real list option list"

definition np_asarray :: "real list option list \<Rightarrow> ndarray" where
  "np_asarray results =
     (if list_all (\<lambda>r. case r of None \<Rightarrow> False
                           | Some v \<Rightarrow> length v = length (the (hd results))) results
      then Floats (map the results) else Objects results)"

text \<open>\<open>ndarray.reshape((d0, d1))\<close> of the elements in row-major order.\<close>

definition reshape :: "'a list \<Rightarrow> nat \<Rightarrow> nat \<Rightarrow> error + 'a list list" where
  "reshape flat d0 d1 =
     (if length flat = d0 * d1 then Inr (map (\<lambda>i. take d1 (drop (i * d1) flat)) [0..<d0])
      else Inl ValueError)"

text \<open>
  Lines 407 to 430. The two loops of \<open>batch_collect\<close> read row \<open>d0*i\<close> for
  \<open>i < b0 // d0\<close> and row \<open>d0*i - b0 + 1\<close> for the other \<open>i\<close>.
\<close>

definition collect_index :: "nat \<Rightarrow> nat \<Rightarrow> nat \<Rightarrow> int" where
  "collect_index b0 d0 i =
     (if i < b0 div d0 then int (d0 * i) else int (d0 * i) - int b0 + 1)"

definition batch_collect :: "ndarray \<Rightarrow> nat \<times> nat \<Rightarrow> error + real list list" where
  "batch_collect batch_d desired_shape =
     (let d0 = fst desired_shape; d1 = snd desired_shape in
      if d0 = 0 then Inl ZeroDivisionError
      else
        (case batch_d of
           Floats rows \<Rightarrow>
             (case sequence (map (\<lambda>i. py_get rows (collect_index (length rows) d0 i))
                              [0..<length rows]) of
                Inl e \<Rightarrow> Inl e
              | Inr final_batch_d \<Rightarrow> reshape (concat final_batch_d) d0 d1)
         | Objects cells \<Rightarrow>
             (case sequence (map (\<lambda>i. py_get cells (collect_index (length cells) d0 i))
                              [0..<length cells]) of
                Inl e \<Rightarrow> Inl e
              | Inr final_batch_d \<Rightarrow>
                  (case reshape final_batch_d d0 d1 of
                     Inl e \<Rightarrow> Inl e
                   | Inr _ \<Rightarrow> Inl ObjectArray))))"

text \<open>
  Lines 432 to 456, on the values of \<open>X\<close> and of the centres. The desired shape is
  (number of centres, number of points).
\<close>

definition batch_distances ::
  "vector list \<Rightarrow> vector list \<Rightarrow> backend \<Rightarrow> map_type \<Rightarrow> error + real list list" where
  "batch_distances X cluster_centers bk mt =
     (case batch_separate X cluster_centers (max_experiments bk) of
        Inl e \<Rightarrow> Inl e
      | Inr batches \<Rightarrow>
          (case sequence (map (\<lambda>B. batch_distance B bk mt) batches) of
             Inl e \<Rightarrow> Inl e
           | Inr distance_list \<Rightarrow>
               batch_collect (np_asarray distance_list) (length cluster_centers, length X)))"

text \<open>
  The unbatched estimator as the callers write it:
  \<open>np.asarray([[distance(point,centroid,backend) for point in X] for centroid in centers])\<close>.
  The call passes neither \<open>map_type\<close> nor \<open>norm_relevance\<close>, so \<open>distance\<close> runs with its
  defaults \<open>'angle'\<close> and \<open>False\<close>. A matrix with a \<open>None\<close> cell is an object array.
\<close>

definition pairwise_distances ::
  "vector list \<Rightarrow> vector list \<Rightarrow> backend \<Rightarrow> error + real list list" where
  "pairwise_distances X centers bk =
     (case sequence (map (\<lambda>centroid.
                       sequence (map (\<lambda>point. distance point centroid bk Angle False) X))
                     centers) of
        Inl e \<Rightarrow> Inl e
      | Inr cells \<Rightarrow>
          (if list_all (list_all (\<lambda>c. case c of None \<Rightarrow> False | Some _ \<Rightarrow> True)) cells
           then Inr (map (map the) cells)
           else Inl ObjectArray))"

subsection \<open>Preprocessing\<close>

text \<open>
  \<open>scale\<close> and \<open>normalize\<close> are functions of scikit-learn, not of this module. They are
  written here as their documentation gives them: \<open>scale\<close> centres every column on its
  mean and divides it by its standard deviation (a deviation of 0 is replaced by 1),
  \<open>normalize\<close> divides every row by its Euclidean norm (a norm of 0 is replaced by 1);
  both refuse an array without rows or without columns.
\<close>

definition mean :: "real list \<Rightarrow> real" where
  "mean xs = sum_list xs / real (length xs)"

definition column :: "'a list list \<Rightarrow> nat \<Rightarrow> 'a list" where
  "column rows j = map (\<lambda>r. r ! j) rows"

definition sk_scale :: "vector list \<Rightarrow> error + vector list" where
  "sk_scale rows =
     (if rows = [] then Inl ValueError
      else if ncols rows = 0 then Inl ValueError
      else Inr (map (\<lambda>r. map (\<lambda>j.
                    let mu = mean (column rows j);
                        sd = sqrt (mean (map (\<lambda>v. (v - mu) * (v - mu)) (column rows j)))
                    in (r ! j - mu) / (if sd = 0 then 1 else sd))
                  [0..<ncols rows]) rows))"

definition sk_normalize :: "vector list \<Rightarrow> error + vector list" where
  "sk_normalize rows =
     (if rows = [] then Inl ValueError
      else if ncols rows = 0 then Inl ValueError
      else Inr (map (\<lambda>r. let nrm = sqrt (sum_list (map (\<lambda>v. v * v) r))
                          in map (\<lambda>v. v / (if nrm = 0 then 1 else nrm)) r) rows))"

text \<open>
  Lines 26 to 51. With an unknown \<open>map_type\<close> neither branch assigns \<open>p_points\<close> and the
  \<open>return\<close> raises \<open>UnboundLocalError\<close>.
\<close>

definition preprocess :: "vector list \<Rightarrow> map_type \<Rightarrow> bool \<Rightarrow> error + vector list" where
  "preprocess points mt norm_relevance =
     (case mt of
        Angle \<Rightarrow>
          (case sk_scale points of
             Inl e \<Rightarrow> Inl e
           | Inr p_points \<Rightarrow>
               if norm_relevance then
                 (if ncols p_points < 2 then Inl IndexError
                  else
                    let norms = map (\<lambda>r. sqrt (r ! 0 * r ! 0 + r ! 1 * r ! 1)) p_points;
                        max_norm = Max (set norms);
                        new_column = map (\<lambda>v. v / max_norm) norms
                    in Inr (map (\<lambda>(r, c). r @ [c]) (zip p_points new_column)))
               else Inr p_points)
      | Probability \<Rightarrow> sk_normalize points
      | Other \<Rightarrow> Inl UnboundLocalError)"

subsection \<open>The estimator object\<close>

text \<open>
  A pandas frame of centres is the list of its rows, each with its index label.
  \<open>pd.DataFrame(rows)\<close> labels the rows 0, 1, 2, ...
\<close>

type_synonym dataframe = "(nat \<times> vector) list"

definition DataFrame :: "vector list \<Rightarrow> dataframe" where
  "DataFrame rows = zip [0..<length rows] rows"

datatype init_method = QKMeansPP | RandomInit | OtherInit

text \<open>\<open>initial_center\<close> is only ever compared with \<open>'far'\<close>: every other value is \<open>RandomCenter\<close>.\<close>

datatype center_strategy = RandomCenter | Far

text \<open>
  The attributes of \<open>QuantumKMeans\<close> (\<open>verbose\<close> only prints and is left out). The
  fitted attributes \<open>cluster_centers_\<close>, \<open>labels_\<close> and \<open>n_iter_\<close> are written without
  their final underscore. \<open>cluster_centers\<close> is \<open>None\<close> for the placeholder \<open>np.empty(0)\<close>
  of the constructor.
\<close>

record QuantumKMeans =
  cluster_centers :: "dataframe option"
  labels :: "nat list"
  n_iter :: nat
  n_clusters :: nat
  init :: init_method
  tol :: real
  max_iter :: int
  backend :: backend
  map_type :: map_type
  norm_relevance :: bool
  initial_center :: center_strategy

text \<open>Lines 584 to 597.\<close>

definition new_QuantumKMeans ::
  "backend \<Rightarrow> nat \<Rightarrow> init_method \<Rightarrow> real \<Rightarrow> int \<Rightarrow> map_type \<Rightarrow> bool \<Rightarrow> center_strategy
     \<Rightarrow> QuantumKMeans" where
  "new_QuantumKMeans bk k i t m mt nr ic =
     \<lparr>cluster_centers = None, labels = [], n_iter = 0, n_clusters = k, init = i, tol = t,
      max_iter = m, backend = bk, map_type = mt, norm_relevance = nr, initial_center = ic\<rparr>"

text \<open>
  The distance matrix as \<open>fit\<close> and \<open>predict\<close> ask for it: \<open>batch_distances\<close> when \<open>batch\<close>
  is set, the comprehension over \<open>distance\<close> otherwise. On the placeholder of the
  constructor \<open>batch_separate\<close> reads \<open>clusters.shape[1]\<close> of a one-dimensional array, and
  the comprehension calls \<open>iterrows\<close> on an array.
\<close>

definition distances_to ::
  "vector list \<Rightarrow> dataframe option \<Rightarrow> backend \<Rightarrow> map_type \<Rightarrow> bool \<Rightarrow> error + real list list" where
  "distances_to X centers bk mt batch =
     (case centers of
        Some df \<Rightarrow>
          if batch then batch_distances X (map snd df) bk mt
          else pairwise_distances X (map snd df) bk
      | None \<Rightarrow>
          if batch then
            (if X = [] then Inl NotImplementedError
             else if max_experiments bk = 0 then Inl ZeroDivisionError
             else Inl IndexError)
          else Inl AttributeError)"

text \<open>\<open>np.argmin\<close>: the first position of the least value.\<close>

fun argmin :: "real list \<Rightarrow> nat" where
  "argmin [] = 0"
| "argmin [x] = 0"
| "argmin (x # y # ys) =
     (if x \<le> (y # ys) ! argmin (y # ys) then 0 else Suc (argmin (y # ys)))"

definition np_argmin :: "real list \<Rightarrow> error + nat" where
  "np_argmin xs = (if xs = [] then Inl ValueError else Inr (argmin xs))"

text \<open>
  \<open>[np.argmin(distances[:,i]) for i in range(distances.shape[1])]\<close>; a matrix without rows
  is one-dimensional and has no \<open>shape[1]\<close>.
\<close>

definition assign_labels :: "real list list \<Rightarrow> error + nat list" where
  "assign_labels distances =
     (if distances = [] then Inl IndexError
      else Inr (map (\<lambda>i. argmin (column distances i)) [0..<ncols distances]))"

subsection \<open>Seeding: \<open>qkmeans_plusplus\<close>\<close>

text \<open>
  The random generator is a collaborator: its state is a value \<open>g\<close>, and its three methods
  used here return their result with the next state. \<open>random_sample(t)\<close> is \<open>t\<close> draws in
  a row.
\<close>

record 'g random_state =
  randint :: "'g \<Rightarrow> nat \<Rightarrow> nat \<times> 'g"
  random_draw :: "'g \<Rightarrow> real \<times> 'g"
  choice :: "'g \<Rightarrow> nat \<Rightarrow> nat \<Rightarrow> nat list \<times> 'g"

fun random_sample :: "('g \<Rightarrow> real \<times> 'g) \<Rightarrow> nat \<Rightarrow> 'g \<Rightarrow> real list \<times> 'g" where
  "random_sample draw 0 g = ([], g)"
| "random_sample draw (Suc t) g =
     (case draw g of (u, g') \<Rightarrow>
        (case random_sample draw t g' of (us, g'') \<Rightarrow> (u # us, g'')))"

text \<open>\<open>stable_cumsum\<close>: the running sums.\<close>

fun cumsum_from :: "real \<Rightarrow> real list \<Rightarrow> real list" where
  "cumsum_from a [] = []"
| "cumsum_from a (x # xs) = (a + x) # cumsum_from (a + x) xs"

definition stable_cumsum :: "real list \<Rightarrow> real list" where
  "stable_cumsum xs = cumsum_from 0 xs"

text \<open>
  \<open>np.searchsorted(a, v)\<close> on an ascending array: the first position whose value is not
  below \<open>v\<close>. The array is the running sum of distances, which are never negative.
\<close>

definition searchsorted :: "real list \<Rightarrow> real \<Rightarrow> nat" where
  "searchsorted a v = length (takeWhile (\<lambda>x. x < v) a)"

text \<open>
  \<open>np.minimum(closest_distances, distance_to_candidates, out=distance_to_candidates)\<close>:
  the row of closest distances against every row of the matrix.
\<close>

definition np_minimum :: "real list \<Rightarrow> real list list \<Rightarrow> error + real list list" where
  "np_minimum closest rows =
     (if list_all (\<lambda>row. length row = length closest) rows
      then Inr (map (\<lambda>row. map (\<lambda>(a, b). min a b) (zip closest row)) rows)
      else Inl ValueError)"

text \<open>
  Lines 506 to 521, and again 533 to 548: draw the candidates, measure them, keep the one
  of least potential. The result is the candidate's row index, the new closest distances,
  the new potential and the generator's state.
\<close>

definition try_candidates ::
  "'g random_state \<Rightarrow> vector list \<Rightarrow> backend \<Rightarrow> map_type \<Rightarrow> bool \<Rightarrow> nat \<Rightarrow> real list \<Rightarrow> real \<Rightarrow> 'g
     \<Rightarrow> error + (int \<times> real list \<times> real \<times> 'g)" where
  "try_candidates rs X bk mt batch n_local_trials closest_distances current_pot g =
     (case random_sample (random_draw rs) n_local_trials g of (us, g') \<Rightarrow>
        let rand_vals = map (\<lambda>u. u * current_pot) us;
            candidate_ids =
              map (\<lambda>v. min (int (searchsorted (stable_cumsum closest_distances) v))
                           (int (length closest_distances) - 1)) rand_vals
        in case sequence (map (py_get X) candidate_ids) of
             Inl e \<Rightarrow> Inl e
           | Inr candidates \<Rightarrow>
               (case (if batch then batch_distances X candidates bk mt
                      else pairwise_distances X candidates bk) of
                  Inl e \<Rightarrow> Inl e
                | Inr distance_to_candidates \<Rightarrow>
                    (case np_minimum closest_distances distance_to_candidates of
                       Inl e \<Rightarrow> Inl e
                     | Inr dtc \<Rightarrow>
                         (case np_argmin (map sum_list dtc) of
                            Inl e \<Rightarrow> Inl e
                          | Inr best \<Rightarrow>
                              Inr (candidate_ids ! best, dtc ! best,
                                   map sum_list dtc ! best, g')))))"

text \<open>
  The body of the loop over \<open>c\<close> (lines 505 to 553) on the state of the loop: the centres,
  their indices, the closest distances, the potential and the generator.
\<close>

definition seed_step ::
  "'g random_state \<Rightarrow> vector list \<Rightarrow> backend \<Rightarrow> map_type \<Rightarrow> center_strategy \<Rightarrow> bool \<Rightarrow> nat \<Rightarrow> nat
     \<Rightarrow> vector list \<times> int list \<times> real list \<times> real \<times> 'g
     \<Rightarrow> error + (vector list \<times> int list \<times> real list \<times> real \<times> 'g)" where
  "seed_step rs X bk mt ic batch n_local_trials c st =
     (case st of (centers, indices, closest_distances, current_pot, g) \<Rightarrow>
        (case try_candidates rs X bk mt batch n_local_trials closest_distances current_pot g of
           Inl e \<Rightarrow> Inl e
         | Inr (best_candidate, closest1, pot1, g1) \<Rightarrow>
             (case py_get X best_candidate of
                Inl e \<Rightarrow> Inl e
              | Inr row \<Rightarrow>
                  if c = 1 \<and> ic = Far then
                    (case (if batch then batch_distances X [centers[c := row] ! 1] bk mt
                           else pairwise_distances X [centers[c := row] ! 1] bk) of
                       Inl e \<Rightarrow> Inl e
                     | Inr d \<Rightarrow>
                         (case try_candidates rs X bk mt batch n_local_trials (concat d)
                                 (sum_list (concat d)) g1 of
                            Inl e \<Rightarrow> Inl e
                          | Inr (best2, closest2, pot2, g2) \<Rightarrow>
                              (case py_get X best2 of
                                 Inl e \<Rightarrow> Inl e
                               | Inr row2 \<Rightarrow>
                                   Inr (centers[c := row, 0 := row2],
                                        indices[c := best_candidate, 0 := best2],
                                        closest2, pot2, g2))))
                  else Inr (centers[c := row], indices[c := best_candidate],
                            closest1, pot1, g1))))"

text \<open>\<open>for c in range(1, n_clusters)\<close>: the steps in order, stopping at the first error.\<close>

fun seed_loop :: "(nat \<Rightarrow> 's \<Rightarrow> error + 's) \<Rightarrow> nat list \<Rightarrow> 's \<Rightarrow> error + 's" where
  "seed_loop step [] st = Inr st"
| "seed_loop step (c # cs) st =
     (case step c st of Inl e \<Rightarrow> Inl e | Inr st' \<Rightarrow> seed_loop step cs st')"

text \<open>
  Lines 458 to 555, as \<open>fit\<close> calls it (no \<open>n_local_trials\<close>, so \<open>2 + int(np.log(n_clusters))\<close>
  trials). \<open>int(np.log(0))\<close> raises \<open>OverflowError\<close>, \<open>randint(0)\<close> raises \<open>ValueError\<close>. The
  rows of \<open>np.empty\<close> are all written before they are read; they start as zeros here.
\<close>

definition qkmeans_plusplus ::
  "vector list \<Rightarrow> nat \<Rightarrow> backend \<Rightarrow> map_type \<Rightarrow> center_strategy \<Rightarrow> bool \<Rightarrow> 'g random_state \<Rightarrow> 'g
     \<Rightarrow> error + (vector list \<times> int list)" where
  "qkmeans_plusplus X k bk mt ic batch rs g =
     (if k = 0 then Inl OverflowError
      else if X = [] then Inl ValueError
      else
        (case randint rs g (length X) of (center_id, g1) \<Rightarrow>
           (case item X center_id of
              Inl e \<Rightarrow> Inl e
            | Inr row \<Rightarrow>
                (case (if batch then batch_distances X [row] bk mt
                       else pairwise_distances X [row] bk) of
                   Inl e \<Rightarrow> Inl e
                 | Inr d \<Rightarrow>
                     (case seed_loop
                             (seed_step rs X bk mt ic batch (2 + nat \<lfloor>ln (real k)\<rfloor>))
                             [1..<k]
                             ((replicate k (replicate (ncols X) 0))[0 := row],
                              (replicate k (- 1))[0 := int center_id],
                              concat d, sum_list (concat d), g1) of
                        Inl e \<Rightarrow> Inl e
                      | Inr (centers, indices, _) \<Rightarrow> Inr (centers, indices))))))"

subsection \<open>\<open>fit\<close> and \<open>predict\<close>\<close>

text \<open>
  \<open>X.groupby(labels).mean()\<close>: one row per distinct label, in ascending order of the labels,
  holding the column means of the rows of \<open>X\<close> with that label.
\<close>

definition groupby_mean :: "vector list \<Rightarrow> nat list \<Rightarrow> dataframe" where
  "groupby_mean X assigned =
     map (\<lambda>l. (l, map (\<lambda>j. mean (column (map fst (filter (\<lambda>(r, l'). l' = l) (zip X assigned))) j))
                     [0..<ncols X]))
       (sort (remdups assigned))"

text \<open>
  Lines 622 and 623: the group means, normalised again and labelled from 0 under the
  probability encoding.
\<close>

definition new_centroids :: "vector list \<Rightarrow> nat list \<Rightarrow> map_type \<Rightarrow> error + dataframe" where
  "new_centroids X assigned mt =
     (if length assigned = length X then
        (case mt of
           Angle \<Rightarrow> Inr (groupby_mean X assigned)
         | Probability \<Rightarrow>
             (case preprocess (map snd (groupby_mean X assigned)) Probability False of
                Inl e \<Rightarrow> Inl e
              | Inr rows \<Rightarrow> Inr (DataFrame rows))
         | Other \<Rightarrow> Inl UnboundLocalError)
      else Inl ValueError)"

text \<open>
  \<open>(new_centroids - self.cluster_centers).sum(axis=0).sum()\<close>. pandas aligns the two frames
  on their row labels and on their columns; a cell that only one frame has is NaN (\<open>None\<close>
  here), and \<open>sum\<close> skips NaN.
\<close>

definition df_width :: "dataframe \<Rightarrow> nat" where
  "df_width df = foldr max (map (\<lambda>(i, r). length r) df) 0"

definition df_sub :: "dataframe \<Rightarrow> dataframe \<Rightarrow> (nat \<times> real option list) list" where
  "df_sub a b =
     map (\<lambda>i. (i,
            case map_of a i of
              None \<Rightarrow> replicate (max (df_width a) (df_width b)) None
            | Some r \<Rightarrow>
                (case map_of b i of
                   None \<Rightarrow> replicate (max (df_width a) (df_width b)) None
                 | Some r' \<Rightarrow>
                     map (\<lambda>(x, y). Some (x - y)) (zip r r')
                     @ replicate (max (df_width a) (df_width b) - length (zip r r')) None)))
       (sort (remdups (map fst a @ map fst b)))"

definition nansum :: "real option list \<Rightarrow> real" where
  "nansum cells = sum_list (map (\<lambda>c. case c of None \<Rightarrow> 0 | Some v \<Rightarrow> v) cells)"

definition sum_axis0 :: "(nat \<times> real option list) list \<Rightarrow> nat \<Rightarrow> real list" where
  "sum_axis0 d w = map (\<lambda>j. nansum (map (\<lambda>(i, r). r ! j) d)) [0..<w]"

definition centers_shift :: "dataframe \<Rightarrow> dataframe \<Rightarrow> real" where
  "centers_shift new old =
     sum_list (sum_axis0 (df_sub new old) (max (df_width new) (df_width old)))"

text \<open>
  The body of the loop of \<open>fit\<close> (lines 618 to 632). It returns the object as the body
  leaves it, also when it raises, and the value of \<open>finished\<close>.
\<close>

definition fit_iteration ::
  "vector list \<Rightarrow> bool \<Rightarrow> QuantumKMeans \<Rightarrow> QuantumKMeans \<times> (error + bool)" where
  "fit_iteration X batch self =
     (case distances_to X (cluster_centers self) (backend self) (map_type self) batch of
        Inl e \<Rightarrow> (self, Inl e)
      | Inr distances \<Rightarrow>
          (case assign_labels distances of
             Inl e \<Rightarrow> (self, Inl e)
           | Inr assigned \<Rightarrow>
               (case new_centroids X assigned (map_type self) of
                  Inl e \<Rightarrow> (self\<lparr>labels := assigned\<rparr>, Inl e)
                | Inr nc \<Rightarrow>
                    (case cluster_centers self of
                       None \<Rightarrow> (self\<lparr>labels := assigned\<rparr>, Inl ValueError)
                     | Some old \<Rightarrow>
                         (self\<lparr>labels := assigned, cluster_centers := Some nc,
                               n_iter := n_iter self + 1\<rparr>,
                          Inr (\<bar>centers_shift nc old\<bar> < tol self))))))"

lemma max_iter_fit_iteration:
  "(self', r) = fit_iteration X batch self \<Longrightarrow> max_iter self' = max_iter self"
  by (auto simp: fit_iteration_def split: sum.splits option.splits)

text \<open>
  The loop \<open>while not finished and iteration<self.max_iter\<close>. The result is the object, the
  final value of the local counter \<open>iteration\<close>, and the exception that ended the loop, if
  one did.
\<close>

function fit_loop ::
  "vector list \<Rightarrow> bool \<Rightarrow> QuantumKMeans \<Rightarrow> bool \<Rightarrow> nat \<Rightarrow> QuantumKMeans \<times> nat \<times> error option" where
  "fit_loop X batch self finished iteration =
     (if \<not> finished \<and> int iteration < max_iter self then
        (case fit_iteration X batch self of
           (self', Inl e) \<Rightarrow> (self', iteration, Some e)
         | (self', Inr fin) \<Rightarrow> fit_loop X batch self' fin (Suc iteration))
      else (self, iteration, None))"
  by pat_completeness auto
termination
  apply (relation "measure (\<lambda>(X, batch, self, finished, iteration). nat (max_iter self - int iteration))")
   apply simp
  apply (auto dest!: max_iter_fit_iteration)
  done

declare fit_loop.simps [simp del]

text \<open>
  Lines 599 to 633. \<open>X.sample(n=n_clusters)\<close> refuses a sample larger than the data. With
  an \<open>init\<close> that is neither string the centres stay what they were. The second component
  of the result is the number of iterations this call has run.
\<close>

definition fit ::
  "QuantumKMeans \<Rightarrow> vector list \<Rightarrow> bool \<Rightarrow> 'g random_state \<Rightarrow> 'g
     \<Rightarrow> QuantumKMeans \<times> nat \<times> error option" where
  "fit self X batch rs g =
     (case preprocess X (map_type self) (norm_relevance self) of
        Inl e \<Rightarrow> (self, 0, Some e)
      | Inr X' \<Rightarrow>
          (case init self of
             QKMeansPP \<Rightarrow>
               (case qkmeans_plusplus X' (n_clusters self) (backend self) (map_type self)
                       (initial_center self) batch rs g of
                  Inl e \<Rightarrow> (self, 0, Some e)
                | Inr (centers, indices) \<Rightarrow>
                    fit_loop X' batch (self\<lparr>cluster_centers := Some (DataFrame centers)\<rparr>)
                      False 0)
           | RandomInit \<Rightarrow>
               (if length X' < n_clusters self then (self, 0, Some ValueError)
                else
                  (case sequence (map (item X')
                                    (fst (choice rs g (length X') (n_clusters self)))) of
                     Inl e \<Rightarrow> (self, 0, Some e)
                   | Inr rows \<Rightarrow>
                       fit_loop X' batch (self\<lparr>cluster_centers := Some (DataFrame rows)\<rparr>)
                         False 0))
           | OtherInit \<Rightarrow> fit_loop X' batch self False 0))"

text \<open>
  Lines 609 to 614 alone: the part of \<open>fit\<close> before its loop, with the preprocessed data
  and the object as the loop finds it.
\<close>

definition fit_init ::
  "QuantumKMeans \<Rightarrow> vector list \<Rightarrow> bool \<Rightarrow> 'g random_state \<Rightarrow> 'g
     \<Rightarrow> error + (vector list \<times> QuantumKMeans)" where
  "fit_init self X batch rs g =
     (case preprocess X (map_type self) (norm_relevance self) of
        Inl e \<Rightarrow> Inl e
      | Inr X' \<Rightarrow>
          (case init self of
             QKMeansPP \<Rightarrow>
               (case qkmeans_plusplus X' (n_clusters self) (backend self) (map_type self)
                       (initial_center self) batch rs g of
                  Inl e \<Rightarrow> Inl e
                | Inr (centers, indices) \<Rightarrow>
                    Inr (X', self\<lparr>cluster_centers := Some (DataFrame centers)\<rparr>))
           | RandomInit \<Rightarrow>
               (if length X' < n_clusters self then Inl ValueError
                else
                  (case sequence (map (item X')
                                    (fst (choice rs g (length X') (n_clusters self)))) of
                     Inl e \<Rightarrow> Inl e
                   | Inr rows \<Rightarrow> Inr (X', self\<lparr>cluster_centers := Some (DataFrame rows)\<rparr>)))
           | OtherInit \<Rightarrow> Inr (X', self)))"

text \<open>A sequence of calls of \<open>fit\<close> on one object, with the iterations each call has run.\<close>

fun fit_calls ::
  "'g random_state \<Rightarrow> QuantumKMeans \<Rightarrow> (vector list \<times> bool \<times> 'g) list \<Rightarrow> QuantumKMeans \<times> nat list" where
  "fit_calls rs self [] = (self, [])"
| "fit_calls rs self ((X, batch, g) # calls) =
     (case fit self X batch rs g of
        (self', iterations, err) \<Rightarrow>
          (case fit_calls rs self' calls of (self'', its) \<Rightarrow> (self'', iterations # its)))"

text \<open>
  Lines 635 to 655. \<open>X * sample_weight\<close> multiplies every row by the weight vector, one
  weight per column. With weights and \<open>batch\<close> the matrix that \<open>batch_distances\<close> returns
  is dropped (line 652), \<open>distances\<close> is never assigned, and line 654 raises.
\<close>

definition predict ::
  "QuantumKMeans \<Rightarrow> vector list \<Rightarrow> real list option \<Rightarrow> bool \<Rightarrow> error + nat list" where
  "predict self X sample_weight batch =
     (case preprocess X (map_type self) (norm_relevance self) of
        Inl e \<Rightarrow> Inl e
      | Inr X' \<Rightarrow>
          (case sample_weight of
             None \<Rightarrow>
               (case distances_to X' (cluster_centers self) (backend self) (map_type self)
                       batch of
                  Inl e \<Rightarrow> Inl e
                | Inr distances \<Rightarrow> assign_labels distances)
           | Some w \<Rightarrow>
               (if length w = ncols X' then
                  (if batch then
                     (case distances_to (map (\<lambda>r. map (\<lambda>(a, b). a * b) (zip r w)) X')
                             (cluster_centers self) (backend self) (map_type self) True of
                        Inl ObjectArray \<Rightarrow> Inl UnboundLocalError
                      | Inl e \<Rightarrow> Inl e
                      | Inr _ \<Rightarrow> Inl UnboundLocalError)
                   else
                     (case distances_to (map (\<lambda>r. map (\<lambda>(a, b). a * b) (zip r w)) X')
                             (cluster_centers self) (backend self) (map_type self) False of
                        Inl e \<Rightarrow> Inl e
                      | Inr distances \<Rightarrow> assign_labels distances))
                else Inl ValueError)))"

subsection \<open>Notions and inputs used in the statements\<close>

text \<open>
  The divergent bitstring of a circuit: zeros for all classical bits but the last, then
  \<open>1\<close>.
\<close>

definition divergent :: "circuit \<Rightarrow> string" where
  "divergent qc = replicate (n_clbits qc - 1) CHR ''0'' @ ''1''"


definition quarter_backend :: backend where
  "quarter_backend =
     \<lparr>get_counts = (\<lambda>qc. [(replicate (n_clbits qc) CHR ''0'', 768), (divergent qc, 256)]),
      max_experiments = 4\<rparr>"

definition zero_backend :: backend where
  "zero_backend =
     \<lparr>get_counts = (\<lambda>qc. [(replicate (n_clbits qc) CHR ''0'', 1024)]), max_experiments = 4\<rparr>"

text \<open>
  A backend for runs of \<open>fit\<close> under the probability encoding: it answers the swap test
  of two equal amplitude vectors with the all-zero outcome alone, and of two different ones
  with 512 to 512 (what orthogonal states give).
\<close>

definition overlap_backend :: backend where
  "overlap_backend =
     \<lparr>get_counts = (\<lambda>qc. case ops qc of
          Initialize x qx # Initialize y qy # rest \<Rightarrow>
            if x = y then [(replicate (n_clbits qc) CHR ''0'', 1024)]
            else [(replicate (n_clbits qc) CHR ''0'', 512), (divergent qc, 512)]
        | _ \<Rightarrow> [(replicate (n_clbits qc) CHR ''0'', 1024)]),
      max_experiments = 4\<rparr>"

text \<open>A generator that always draws row 0, the number 1/2 and the first \<open>k\<close> rows.\<close>

definition fixed_rng :: "unit random_state" where
  "fixed_rng = \<lparr>randint = (\<lambda>g n. (0, g)), random_draw = (\<lambda>g. (1 / 2, g)),
                choice = (\<lambda>g n k. ([0..<k], g))\<rparr>"

text \<open>
  A model of two clusters, and two datasets. From the first, \<open>fit\<close> starts with the
  centres \<open>(1, 0)\<close> and \<open>(0, 1)\<close>; \<open>example_fitted\<close> and \<open>example_refitted\<close> are the object
  after one and after two calls. From the second, whose first two points are equal, it
  starts with twice the centre \<open>(1, 0)\<close>; \<open>lopsided_fitted\<close> is the object after one
  iteration.
\<close>

definition example_model :: QuantumKMeans where
  "example_model =
     new_QuantumKMeans overlap_backend 2 RandomInit (1 / 10000) 300 Probability False RandomCenter"

definition three_points :: "vector list" where
  "three_points = [[1, 0], [0, 1], [1, 0]]"

definition example_start :: QuantumKMeans where
  "example_start = example_model\<lparr>cluster_centers := Some [(0, [1, 0]), (1, [0, 1])]\<rparr>"

definition example_fitted :: QuantumKMeans where
  "example_fitted = example_model\<lparr>labels := [0, 1, 0],
     cluster_centers := Some [(0, [1, 0]), (1, [0, 1])], n_iter := 1\<rparr>"

definition example_refitted :: QuantumKMeans where
  "example_refitted = example_model\<lparr>labels := [0, 1, 0],
     cluster_centers := Some [(0, [1, 0]), (1, [0, 1])], n_iter := 2\<rparr>"

definition lopsided_points :: "vector list" where
  "lopsided_points = [[1, 0], [1, 0], [3 / 5, 4 / 5], [3 / 5, - 4 / 5]]"

definition lopsided_start :: QuantumKMeans where
  "lopsided_start = example_model\<lparr>cluster_centers := Some [(0, [1, 0]), (1, [1, 0])]\<rparr>"

definition lopsided_fitted :: QuantumKMeans where
  "lopsided_fitted = example_model\<lparr>labels := [0, 0, 0, 0],
     cluster_centers := Some [(0, [1, 0])], n_iter := 1\<rparr>"

text \<open>The model with the centres \<open>(3/5, 4/5)\<close> and \<open>(0, 1)\<close>, for the first dataset.\<close>

definition moved_start :: QuantumKMeans where
  "moved_start = example_model\<lparr>cluster_centers := Some [(0, [3 / 5, 4 / 5]), (1, [0, 1])]\<rparr>"

text \<open>A dataset of four points and three centres, for the batched distances.\<close>

definition four_points :: "vector list" where
  "four_points = [[1, 0], [0, 1], [1, 1], [2, 1]]"

definition three_centers :: "vector list" where
  "three_centers = [[1, 0], [0, 1], [1, 1]]"

text \<open>
  The objects that the body of the loop of \<open>fit\<close> produces from an object \<open>s\<close>: \<open>s\<close>
  itself, and the object after one more iteration that completes.
\<close>

inductive fit_reaches :: "vector list \<Rightarrow> bool \<Rightarrow> QuantumKMeans \<Rightarrow> QuantumKMeans \<Rightarrow> bool"
  for X :: "vector list" and batch :: bool and s :: QuantumKMeans where
  start: "fit_reaches X batch s s"
| step: "fit_reaches X batch s t \<Longrightarrow> fit_iteration X batch t = (u, Inr fin)
           \<Longrightarrow> fit_reaches X batch s u"

(* end of the definitions *)

section \<open>Properties\<close>

subsection \<open>Lists of results\<close>

lemma sequence_map_Inr [simp]: "sequence (map Inr vs) = Inr vs"
  by (induction vs) simp_all

lemma sequence_Inr_D: "sequence rs = Inr vs \<Longrightarrow> rs = map Inr vs"
  by (induction rs arbitrary: vs) (auto split: sum.splits)


lemma built_all:
  assumes "map g chunk = map Inr qcs" and "\<And>x qc. g x = Inr qc \<Longrightarrow> P qc"
  shows "length qcs = length chunk \<and> (\<forall>qc\<in>set qcs. P qc)"
proof
  from assms(1) show len: "length qcs = length chunk" by (metis length_map)
  show "\<forall>qc\<in>set qcs. P qc"
  proof
    fix qc assume "qc \<in> set qcs"
    then obtain i where i: "i < length qcs" "qcs ! i = qc" by (auto simp: in_set_conv_nth)
    with assms(1) len have "g (chunk ! i) = Inr qc" by (metis nth_map)
    then show "P qc" by (rule assms(2))
  qed
qed

subsection \<open>Decoding the histogram of an executed circuit\<close>

lemma divergent_angle [simp]: "divergent (angle_circuit a b) = ''001''"
  by (simp add: divergent_def angle_circuit_def eval_nat_numeral)

lemma divergent_norm_single [simp]: "divergent (norm_circuit_single a b c d) = ''001''"
  by (simp add: divergent_def norm_circuit_single_def eval_nat_numeral)

lemma divergent_norm_batch [simp]: "divergent (norm_circuit_batch a b c d) = ''001''"
  by (simp add: divergent_def norm_circuit_batch_def eval_nat_numeral)

lemma divergent_probability [simp]: "divergent (probability_circuit k x y) = divergent_key k"
  by (simp add: divergent_def probability_circuit_def divergent_key_def)










text \<open>The backend that answers 768 to 256, on two points and the centre \<open>(0, 1)\<close>.\<close>

lemma quarter_angle2:
  "decode_single (get_counts quarter_backend (angle_circuit a b)) = Inr (1 / 4)"
  by (simp add: quarter_backend_def decode_single_def py_len_def angle_circuit_def
      divergent_def eval_nat_numeral)

lemma quarter_distance:
  "distance [1, 0] [0, 1] quarter_backend Angle False = Inr (Some (1 / 4))"
  by (simp add: distance_def Let_def quarter_angle2)





subsection \<open>The circuits of the probability encoding\<close>

text \<open>
  Claim C3 at three features in the batched path: the branch for three features has a case
  for the angle encoding only, so under the probability encoding no circuit is built and
  the function returns \<open>None\<close>.
\<close>

theorem probability_three_features_no_result:
  "batch_distance ([[1, 0, 0], [0, 1, 0]], [0, 0, 1]) bk Probability = Inr None"
  by (simp add: batch_distance_def ncols_def)

subsection \<open>The magnitude rotations of the angle encoding\<close>

text \<open>
  Claim C4 at the centre \<open>(0, 1, 1/2)\<close>: on the point \<open>(1, 0, 1)\<close> \<open>distance\<close> executes a
  circuit whose two magnitude rotations (by \<open>pi\<close> and by \<open>pi/2\<close>) both act on qubit 1, and
  none on qubit 2; on the chunk of the points \<open>(1, 0, 1)\<close> and \<open>(0, 1, 1)\<close>
  \<open>batch_distance\<close> executes two circuits, each with the rotation of its point (by \<open>pi/2\<close>)
  on qubit 1 and the rotation of the centre (by \<open>pi/4\<close>) on qubit 2.
\<close>

theorem magnitude_rotation_qubits:
  "distance [1, 0, 1] [0, 1, 1 / 2] bk Angle True =
     map_sum id Some (decode_single (get_counts bk
       \<lparr>n_qubits = 3, n_clbits = 3,
        ops = [H 0, H 1, H 2, U3 (np_angle 1 0) pi pi 1, U3 pi 0 0 1,
               U3 (np_angle 0 1) pi pi 2, U3 (pi / 2) 0 0 1,
               CSwap 0 1 2, H 0, Measure 0 0, Reset]\<rparr>))
   \<and> batch_distance ([[1, 0, 1], [0, 1, 1]], [0, 1, 1 / 2]) bk Angle =
     map_sum id Some (sequence (map (\<lambda>qc. decode_single (get_counts bk qc))
       [\<lparr>n_qubits = 3, n_clbits = 3,
         ops = [H 0, H 1, H 2, U3 (np_angle 1 0) pi pi 1, U3 (pi / 2) 0 0 1,
                U3 (np_angle 0 1) pi pi 2, U3 (pi / 4) 0 0 2,
                CSwap 0 1 2, H 0, Measure 0 0, Reset]\<rparr>,
        \<lparr>n_qubits = 3, n_clbits = 3,
         ops = [H 0, H 1, H 2, U3 (np_angle 0 1) pi pi 1, U3 (pi / 2) 0 0 1,
                U3 (np_angle 0 1) pi pi 2, U3 (pi / 4) 0 0 2,
                CSwap 0 1 2, H 0, Measure 0 0, Reset]\<rparr>]))"
  by (simp add: distance_def Let_def norm_circuit_single_def batch_distance_def ncols_def
      run_angle_def norm_circuit_of_def norm_circuit_batch_def)

subsection \<open>Combinations of encoding and dimension without a case\<close>

text \<open>
  Claim C8 as stated fails: on four features under the angle encoding \<open>distance\<close> raises
  nothing and returns \<open>None\<close>.
\<close>

theorem uncovered_combination_counterexample:
  "distance [1, 2, 3, 4] [4, 3, 2, 1] quarter_backend Angle False = Inr None"
  by (simp add: distance_def)

text \<open>
  Claim C8, as the code has it: for an unknown \<open>map_type\<close>, and for the angle encoding on a
  number of features that is neither 2 nor 3 with \<open>norm_relevance\<close>, \<open>distance\<close> raises no
  error and returns \<open>None\<close>, whatever the operands and the backend are.
\<close>

theorem uncovered_combination_returns_None:
  "mt = Other \<or> mt = Angle \<and> length x \<noteq> 2 \<and> (length x = 3 \<longrightarrow> \<not> nr)
   \<Longrightarrow> distance x y bk mt nr = Inr None"
  by (auto simp: distance_def)

theorem uncovered_combination_returns_None_witness:
  "length [1, 2, 3 :: real] = 3
   \<and> distance [1, 2, 3] [3, 2, 1] quarter_backend Angle False = Inr None"
  using uncovered_combination_returns_None [of Angle "[1, 2, 3]" False "[3, 2, 1]" quarter_backend]
  by simp

subsection \<open>Shapes of the distance matrices\<close>

lemma sequence_length: "sequence rs = Inr vs \<Longrightarrow> length vs = length rs"
  by (drule sequence_Inr_D) simp

lemma reshape_shape:
  assumes "reshape flat d0 d1 = Inr m"
  shows "length m = d0 \<and> (\<forall>row\<in>set m. length row = d1)"
proof -
  from assms have len: "length flat = d0 * d1"
    and m: "m = map (\<lambda>i. take d1 (drop (i * d1) flat)) [0..<d0]"
    by (auto simp: reshape_def split: if_splits)
  have "length (take d1 (drop (i * d1) flat)) = d1" if "i < d0" for i
  proof -
    from that have "Suc i \<le> d0" by simp
    then have "Suc i * d1 \<le> d0 * d1" by (rule mult_le_mono1)
    with len show ?thesis by simp
  qed
  with m show ?thesis by auto
qed

lemma batch_collect_shape:
  assumes "batch_collect a (d0, d1) = Inr m"
  shows "length m = d0 \<and> (\<forall>row\<in>set m. length row = d1)"
  using assms
  by (cases a) (auto simp: batch_collect_def Let_def split: if_splits sum.splits dest: reshape_shape)

lemma batch_distances_shape:
  assumes "batch_distances X cs bk mt = Inr m"
  shows "length m = length cs \<and> (\<forall>row\<in>set m. length row = length X)"
  using assms
  by (auto simp: batch_distances_def split: sum.splits dest: batch_collect_shape)

lemma pairwise_distances_shape:
  assumes "pairwise_distances X cs bk = Inr m"
  shows "length m = length cs \<and> (\<forall>row\<in>set m. length row = length X)"
proof -
  from assms obtain cells where
    c: "sequence (map (\<lambda>centroid. sequence (map (\<lambda>point. distance point centroid bk Angle False) X)) cs) = Inr cells"
    and m: "m = map (map the) cells"
    by (auto simp: pairwise_distances_def split: sum.splits if_splits)
  from c have eq: "map (\<lambda>centroid. sequence (map (\<lambda>point. distance point centroid bk Angle False) X)) cs = map Inr cells"
    by (rule sequence_Inr_D)
  have "length cells = length cs \<and> (\<forall>row\<in>set cells. length row = length X)"
    using eq
  proof (rule built_all)
    fix x qc
    assume "sequence (map (\<lambda>point. distance point x bk Angle False) X) = Inr qc"
    then show "length qc = length X" by (auto dest: sequence_length)
  qed
  with m show ?thesis by auto
qed

lemma argmin_less: "xs \<noteq> [] \<Longrightarrow> argmin xs < length xs"
  by (induction xs rule: argmin.induct) auto

lemma argmin_least: "xs \<noteq> [] \<Longrightarrow> \<forall>x\<in>set xs. xs ! argmin xs \<le> x"
  by (induction xs rule: argmin.induct) (auto simp: not_le intro: order_trans less_imp_le)

subsection \<open>One iteration of \<open>fit\<close>, and the loop\<close>

lemma assign_labels_bound:
  assumes "assign_labels d = Inr ls"
  shows "\<forall>l\<in>set ls. l < length d"
proof -
  from assms have d: "d \<noteq> []" and ls: "ls = map (\<lambda>i. argmin (column d i)) [0..<ncols d]"
    by (auto simp: assign_labels_def split: if_splits)
  have "argmin (column d i) < length d" for i
    using argmin_less [of "column d i"] d by (simp add: column_def)
  with ls show ?thesis by auto
qed

lemma distances_to_shape:
  assumes "distances_to X (Some old) bk mt batch = Inr d"
  shows "length d = length old \<and> (\<forall>row\<in>set d. length row = length X)"
  using assms batch_distances_shape [of X "map snd old" bk mt d]
    pairwise_distances_shape [of X "map snd old" bk d]
  by (auto simp: distances_to_def split: if_splits)

lemma distances_to_None: "distances_to X None bk mt batch = Inr d \<Longrightarrow> False"
  by (auto simp: distances_to_def split: if_splits)

lemma length_groupby_mean: "length (groupby_mean X ls) = card (set ls)"
  by (simp add: groupby_mean_def length_remdups_card_conv)

lemma sk_normalize_length: "sk_normalize rows = Inr rows' \<Longrightarrow> length rows' = length rows"
  by (auto simp: sk_normalize_def split: if_splits)

lemma length_DataFrame [simp]: "length (DataFrame rows) = length rows"
  by (simp add: DataFrame_def)

lemma map_snd_DataFrame [simp]: "map snd (DataFrame rows) = rows"
  by (simp add: DataFrame_def)

lemma new_centroids_length:
  "new_centroids X ls mt = Inr nc \<Longrightarrow> length nc = card (set ls)"
  by (cases mt)
     (auto simp: new_centroids_def preprocess_def length_groupby_mean
           split: if_splits sum.splits dest!: sk_normalize_length)

lemma fit_iteration_Inr:
  assumes "fit_iteration X batch self = (self', Inr fin)"
  shows "\<exists>old nc. cluster_centers self = Some old
           \<and> new_centroids X (labels self') (map_type self) = Inr nc
           \<and> cluster_centers self' = Some nc
           \<and> n_iter self' = n_iter self + 1
           \<and> (\<forall>l\<in>set (labels self'). l < length old)
           \<and> fin = (\<bar>centers_shift nc old\<bar> < tol self)"
proof -
  from assms obtain d ls nc old where
    d: "distances_to X (cluster_centers self) (backend self) (map_type self) batch = Inr d"
    and ls: "assign_labels d = Inr ls"
    and nc: "new_centroids X ls (map_type self) = Inr nc"
    and old: "cluster_centers self = Some old"
    and s: "self' = self\<lparr>labels := ls, cluster_centers := Some nc, n_iter := n_iter self + 1\<rparr>"
    and f: "fin = (\<bar>centers_shift nc old\<bar> < tol self)"
    by (auto simp: fit_iteration_def split: sum.splits option.splits)
  from d old have "length d = length old" by (auto dest: distances_to_shape)
  with assign_labels_bound [OF ls] have "\<forall>l\<in>set ls. l < length old" by simp
  with nc old s f show ?thesis by simp
qed

lemma fit_iteration_Inl:
  assumes "fit_iteration X batch self = (self', Inl e)"
  shows "cluster_centers self' = cluster_centers self \<and> n_iter self' = n_iter self"
  using assms by (auto simp: fit_iteration_def split: sum.splits option.splits)

lemma card_labels_le:
  assumes "\<forall>l\<in>set ls. l < k"
  shows "card (set ls) \<le> k" and "j < k \<Longrightarrow> j \<notin> set ls \<Longrightarrow> card (set ls) < k"
proof -
  from assms have sub: "set ls \<subseteq> {..<k}" by auto
  then show "card (set ls) \<le> k" using card_mono [of "{..<k}" "set ls"] by simp
  assume "j < k" "j \<notin> set ls"
  with sub have "set ls \<subset> {..<k}" by auto
  then show "card (set ls) < k" using psubset_card_mono [of "{..<k}" "set ls"] by simp
qed

lemma fit_iteration_centers:
  assumes "fit_iteration X batch self = (self', r)" and "cluster_centers self = Some old"
  shows "\<exists>new. cluster_centers self' = Some new \<and> length new \<le> length old"
proof (cases r)
  case (Inl e)
  with assms fit_iteration_Inl [of X batch self self' e] show ?thesis by simp
next
  case (Inr fin)
  with assms fit_iteration_Inr [of X batch self self' fin] obtain nc where
    nc: "new_centroids X (labels self') (map_type self) = Inr nc"
    and s: "cluster_centers self' = Some nc" and b: "\<forall>l\<in>set (labels self'). l < length old"
    by auto
  from new_centroids_length [OF nc] card_labels_le(1) [OF b] s show ?thesis by simp
qed

lemma fit_loop_centers:
  "cluster_centers self = Some old \<Longrightarrow>
     \<exists>final. cluster_centers (fst (fit_loop X batch self finished iteration)) = Some final
        \<and> length final \<le> length old"
proof (induction X batch self finished iteration arbitrary: old rule: fit_loop.induct)
  case (1 X batch self finished iteration)
  show ?case
  proof (cases "\<not> finished \<and> int iteration < max_iter self")
    case False
    with 1(2) show ?thesis by (auto simp: fit_loop.simps [of X batch self])
  next
    case True
    obtain self' r where it: "fit_iteration X batch self = (self', r)" by (cases "fit_iteration X batch self")
    from fit_iteration_centers [OF it 1(2)] obtain new where
      new: "cluster_centers self' = Some new" "length new \<le> length old" by blast
    show ?thesis
    proof (cases r)
      case (Inl e)
      with True it new show ?thesis by (simp add: fit_loop.simps [of X batch self])
    next
      case (Inr fin)
      from 1(1) [OF True it [symmetric] Inr new(1)] obtain final where
        "cluster_centers (fst (fit_loop X batch self' fin (Suc iteration))) = Some final"
        "length final \<le> length new" by blast
      with True it Inr new(2) show ?thesis
        by (auto simp: fit_loop.simps [of X batch self])
    qed
  qed
qed

lemma fit_loop_n_iter:
  "fit_loop X batch self finished iteration = (self', its, err) \<Longrightarrow>
     n_iter self' + iteration = n_iter self + its"
proof (induction X batch self finished iteration rule: fit_loop.induct)
  case (1 X batch self finished iteration)
  show ?case
  proof (cases "\<not> finished \<and> int iteration < max_iter self")
    case False
    with 1(2) show ?thesis by (auto simp: fit_loop.simps [of X batch self])
  next
    case True
    obtain s1 r where it: "fit_iteration X batch self = (s1, r)" by (cases "fit_iteration X batch self")
    show ?thesis
    proof (cases r)
      case (Inl e)
      with True it 1(2) fit_iteration_Inl [of X batch self s1 e] show ?thesis
        by (auto simp: fit_loop.simps [of X batch self])
    next
      case (Inr fin)
      from True it Inr 1(2) have "fit_loop X batch s1 fin (Suc iteration) = (self', its, err)"
        by (simp add: fit_loop.simps [of X batch self])
      from 1(1) [OF True it [symmetric] Inr this]
      have "n_iter self' + Suc iteration = n_iter s1 + its" .
      moreover from it Inr fit_iteration_Inr [of X batch self s1 fin]
      have "n_iter s1 = n_iter self + 1" by auto
      ultimately show ?thesis by simp
    qed
  qed
qed

lemma fit_n_iter:
  assumes "fit self X batch rs g = (self', its, err)"
  shows "n_iter self' = n_iter self + its"
proof (cases "preprocess X (map_type self) (norm_relevance self)")
  case (Inl e)
  with assms show ?thesis by (simp add: fit_def)
next
  case (Inr X')
  show ?thesis
  proof (cases "init self")
    case QKMeansPP
    show ?thesis
    proof (cases "qkmeans_plusplus X' (n_clusters self) (backend self) (map_type self)
                    (initial_center self) batch rs g")
      case (Inl e)
      with assms Inr QKMeansPP show ?thesis by (simp add: fit_def)
    next
      case (Inr ci)
      with assms \<open>preprocess X (map_type self) (norm_relevance self) = Inr X'\<close> QKMeansPP
      have "fit_loop X' batch (self\<lparr>cluster_centers := Some (DataFrame (fst ci))\<rparr>) False 0
              = (self', its, err)"
        by (cases ci) (simp add: fit_def)
      from fit_loop_n_iter [OF this] show ?thesis by simp
    qed
  next
    case RandomInit
    show ?thesis
    proof (cases "length X' < n_clusters self")
      case True
      with assms Inr RandomInit show ?thesis by (simp add: fit_def)
    next
      case False
      show ?thesis
      proof (cases "sequence (map (item X') (fst (choice rs g (length X') (n_clusters self))))")
        case (Inl e)
        with assms \<open>preprocess X (map_type self) (norm_relevance self) = Inr X'\<close> RandomInit False
        show ?thesis by (simp add: fit_def)
      next
        case (Inr rows)
        with assms \<open>preprocess X (map_type self) (norm_relevance self) = Inr X'\<close> RandomInit False
        have "fit_loop X' batch (self\<lparr>cluster_centers := Some (DataFrame rows)\<rparr>) False 0
                = (self', its, err)"
          by (simp add: fit_def)
        from fit_loop_n_iter [OF this] show ?thesis by simp
      qed
    qed
  next
    case OtherInit
    with assms Inr have "fit_loop X' batch self False 0 = (self', its, err)"
      by (simp add: fit_def)
    from fit_loop_n_iter [OF this] show ?thesis by simp
  qed
qed

lemma fit_calls_n_iter:
  "fit_calls rs self calls = (self', its) \<Longrightarrow>
     n_iter self' = n_iter self + sum_list its \<and> length its = length calls"
proof (induction calls arbitrary: self self' its)
  case Nil
  then show ?case by simp
next
  case (Cons call calls)
  obtain X batch g where call: "call = (X, batch, g)" by (cases call)
  obtain s1 n1 e1 where f: "fit self X batch rs g = (s1, n1, e1)" by (cases "fit self X batch rs g")
  obtain s2 ns where r: "fit_calls rs s1 calls = (s2, ns)" by (cases "fit_calls rs s1 calls")
  from Cons.prems call f r have eq: "self' = s2" "its = n1 # ns" by simp_all
  from Cons.IH [OF r] fit_n_iter [OF f] eq show ?case by simp
qed

lemma fit_fit_init:
  "fit self X batch rs g =
     (case fit_init self X batch rs g of
        Inl e \<Rightarrow> (self, 0, Some e)
      | Inr (X', start) \<Rightarrow> fit_loop X' batch start False 0)"
  by (simp add: fit_def fit_init_def split: sum.splits init_method.splits prod.splits)

lemma fit_reaches_centers:
  assumes "fit_reaches X batch s t" and "cluster_centers s = Some c"
  shows "\<exists>c'. cluster_centers t = Some c' \<and> length c' \<le> length c"
  using assms
proof (induction rule: fit_reaches.induct)
  case start
  then show ?case by simp
next
  case (step t u fin)
  then obtain c' where c': "cluster_centers t = Some c'" "length c' \<le> length c" by blast
  from fit_iteration_centers [OF step.hyps(2) c'(1)] c'(2) show ?case by auto
qed

lemma fit_iteration_full:
  assumes "fit_iteration X batch self = (self', Inr fin)"
  shows "\<exists>old d new. cluster_centers self = Some old
           \<and> distances_to X (Some old) (backend self) (map_type self) batch = Inr d
           \<and> assign_labels d = Inr (labels self')
           \<and> new_centroids X (labels self') (map_type self) = Inr new
           \<and> cluster_centers self' = Some new
           \<and> fin = (\<bar>centers_shift new old\<bar> < tol self)"
  using assms by (auto simp: fit_iteration_def split: sum.splits option.splits)

lemma fit_loop_step:
  assumes "fit_iteration X batch self = (self', Inr fin)" and "int iteration < max_iter self"
  shows "fit_loop X batch self False iteration =
           (if fin then (self', Suc iteration, None)
            else fit_loop X batch self' False (Suc iteration))"
  using assms
  by (simp add: fit_loop.simps [of X batch self False] fit_loop.simps [of X batch self' True])

subsection \<open>Two runs of \<open>fit\<close> on three points\<close>

lemma ex_preprocess: "preprocess three_points Probability False = Inr three_points"
  by (simp add: preprocess_def sk_normalize_def three_points_def ncols_def)

lemma ex_separate: "batch_separate three_points [[1, 0], [0, 1]] 4
    = Inr [(three_points, [1, 0]), (three_points, [0, 1])]"
  by code_simp

lemma ex_counts:
  "decode_contained (divergent_key 1) (get_counts overlap_backend (probability_circuit 1 x y))
     = (if x = y then 0 else 1 / 2)"
  by (simp add: overlap_backend_def probability_circuit_def decode_contained_def divergent_def
      divergent_key_def eval_nat_numeral)

lemma ex_batch_distance:
  "batch_distance (three_points, [1, 0]) overlap_backend Probability = Inr (Some [0, 1 / 2, 0])"
  "batch_distance (three_points, [0, 1]) overlap_backend Probability = Inr (Some [1 / 2, 0, 1 / 2])"
  by (simp_all add: batch_distance_def three_points_def ncols_def run_probability_def Let_def
      ex_counts del: One_nat_def)

lemma ex_collect:
  "batch_collect (np_asarray [Some [0, 1 / 2, 0], Some [1 / 2, 0, 1 / 2]]) (2, 3)
     = Inr [[0, 1 / 2, 0], [1 / 2, 0, 1 / 2]]"
  by code_simp

lemma ex_batch: "batch_distances three_points [[1, 0], [0, 1]] overlap_backend Probability
    = Inr [[0, 1 / 2, 0], [1 / 2, 0, 1 / 2]]"
proof -
  have mx: "max_experiments overlap_backend = 4" by (simp add: overlap_backend_def)
  have len: "(length [[1, 0], [0, 1 :: real]], length three_points) = (2, 3)"
    by (simp add: three_points_def)
  show ?thesis
    by (simp only: batch_distances_def mx len ex_separate sum.case list.map ex_batch_distance
        sequence.simps ex_collect)
qed

lemma ex_labels: "assign_labels [[0, 1 / 2, 0], [1 / 2, 0, 1 / 2]] = Inr [0, 1, 0]"
  by code_simp

lemma ex_groupby: "groupby_mean three_points [0, 1, 0] = [(0, [1, 0]), (1, [0, 1])]"
  by code_simp

lemma ex_shift: "centers_shift [(0, [1, 0]), (1, [0, 1])] [(0, [1, 0]), (1, [0, 1])] = 0"
  by code_simp

lemma ex_frame: "DataFrame [[1, 0], [0, 1]] = [(0, [1, 0]), (1, [0, 1])]"
  by code_simp

lemma ex_new_centroids:
  "new_centroids three_points [0, 1, 0] Probability = Inr [(0, [1, 0]), (1, [0, 1])]"
proof -
  have "length three_points = 3" by (simp add: three_points_def)
  moreover have "preprocess [[1, 0], [0, 1]] Probability False = Inr [[1, 0], [0, 1]]"
    by (simp add: preprocess_def sk_normalize_def ncols_def)
  ultimately show ?thesis by (simp add: new_centroids_def ex_groupby ex_frame del: One_nat_def)
qed

lemma ex_iteration: "fit_iteration three_points True example_start = (example_fitted, Inr True)"
  by (simp add: fit_iteration_def example_start_def example_fitted_def example_model_def
      new_QuantumKMeans_def distances_to_def ex_batch ex_labels ex_new_centroids ex_shift
      del: One_nat_def)

lemma ex_loop: "fit_loop three_points True example_start False 0 = (example_fitted, 1, None)"
proof -
  have "max_iter example_start = 300"
    by (simp add: example_start_def example_model_def new_QuantumKMeans_def)
  then show ?thesis
    by (simp add: fit_loop.simps [of three_points True example_start]
        fit_loop.simps [of three_points True example_fitted] ex_iteration del: One_nat_def)
qed

lemma ex_fields:
  "init example_model = RandomInit" "map_type example_model = Probability"
  "norm_relevance example_model = False" "n_clusters example_model = 2"
  by (simp_all add: example_model_def new_QuantumKMeans_def)

lemma ex_fit: "fit example_model three_points True fixed_rng () = (example_fitted, 1, None)"
proof -
  have "sequence (map (item three_points) [0..<2]) = Inr [[1, 0], [0, 1]]"
    by code_simp
  moreover have "length three_points = 3" by (simp add: three_points_def)
  moreover have "choice fixed_rng () 3 2 = ([0..<2], ())" by (simp add: fixed_rng_def)
  ultimately show ?thesis
    by (simp add: fit_def ex_fields ex_preprocess ex_frame ex_loop [unfolded example_start_def]
        del: One_nat_def)
qed

lemma ex_fields2:
  "init example_fitted = RandomInit" "map_type example_fitted = Probability"
  "norm_relevance example_fitted = False" "n_clusters example_fitted = 2"
  "example_fitted\<lparr>cluster_centers := Some [(0, [1, 0]), (1, [0, 1])]\<rparr> = example_fitted"
  by (simp_all add: example_fitted_def example_model_def new_QuantumKMeans_def)

lemma ex_iteration2:
  "fit_iteration three_points True example_fitted = (example_refitted, Inr True)"
  by (simp add: fit_iteration_def example_refitted_def example_fitted_def example_model_def
      new_QuantumKMeans_def distances_to_def ex_batch ex_labels ex_new_centroids ex_shift
      del: One_nat_def)

lemma ex_loop2: "fit_loop three_points True example_fitted False 0 = (example_refitted, 1, None)"
proof -
  have "max_iter example_fitted = 300"
    by (simp add: example_fitted_def example_model_def new_QuantumKMeans_def)
  then show ?thesis
    by (simp add: fit_loop.simps [of three_points True example_fitted]
        fit_loop.simps [of three_points True example_refitted] ex_iteration2 del: One_nat_def)
qed

lemma ex_fit2: "fit example_fitted three_points True fixed_rng () = (example_refitted, 1, None)"
proof -
  have "sequence (map (item three_points) [0..<2]) = Inr [[1, 0], [0, 1]]"
    by code_simp
  moreover have "length three_points = 3" by (simp add: three_points_def)
  moreover have "choice fixed_rng () 3 2 = ([0..<2], ())" by (simp add: fixed_rng_def)
  ultimately show ?thesis
    by (simp add: fit_def ex_fields2 ex_preprocess ex_frame ex_loop2 del: One_nat_def)
qed

lemma ex_calls:
  "fit_calls fixed_rng example_model [(three_points, True, ()), (three_points, True, ())]
     = (example_refitted, [1, 1])"
  by (simp add: ex_fit ex_fit2)

text \<open>An iteration from the centres \<open>(3/5, 4/5)\<close> and \<open>(0, 1)\<close>: the first centre moves.\<close>

lemma moved_separate: "batch_separate three_points [[3 / 5, 4 / 5], [0, 1]] 4
    = Inr [(three_points, [3 / 5, 4 / 5]), (three_points, [0, 1])]"
  by code_simp

lemma moved_batch_distance:
  "batch_distance (three_points, [3 / 5, 4 / 5]) overlap_backend Probability
     = Inr (Some [1 / 2, 1 / 2, 1 / 2])"
  by (simp add: batch_distance_def three_points_def ncols_def run_probability_def Let_def
      ex_counts del: One_nat_def)

lemma moved_collect:
  "batch_collect (np_asarray [Some [1 / 2, 1 / 2, 1 / 2], Some [1 / 2, 0, 1 / 2]]) (2, 3)
     = Inr [[1 / 2, 1 / 2, 1 / 2], [1 / 2, 0, 1 / 2]]"
  by code_simp

lemma moved_batch:
  "batch_distances three_points [[3 / 5, 4 / 5], [0, 1]] overlap_backend Probability
     = Inr [[1 / 2, 1 / 2, 1 / 2], [1 / 2, 0, 1 / 2]]"
proof -
  have mx: "max_experiments overlap_backend = 4" by (simp add: overlap_backend_def)
  have len: "(length [[3 / 5, 4 / 5], [0, 1 :: real]], length three_points) = (2, 3)"
    by (simp add: three_points_def)
  show ?thesis
    by (simp only: batch_distances_def mx len moved_separate sum.case list.map
        moved_batch_distance ex_batch_distance sequence.simps moved_collect)
qed

lemma moved_labels: "assign_labels [[1 / 2, 1 / 2, 1 / 2], [1 / 2, 0, 1 / 2]] = Inr [0, 1, 0]"
  by code_simp

lemma moved_shift:
  "centers_shift [(0, [1, 0]), (1, [0, 1])] [(0, [3 / 5, 4 / 5]), (1, [0, 1])] = - 2 / 5"
  by code_simp

lemma moved_iteration:
  "fit_iteration three_points True moved_start = (example_fitted, Inr False)"
  by (simp add: fit_iteration_def moved_start_def example_fitted_def example_model_def
      new_QuantumKMeans_def distances_to_def moved_batch moved_labels ex_new_centroids
      moved_shift del: One_nat_def)

text \<open>
  The first iteration on the second dataset: every point is nearest to the first of the
  two equal centres, the second centre gets no point.
\<close>

lemma lopsided_preprocess: "preprocess lopsided_points Probability False = Inr lopsided_points"
  by (simp add: preprocess_def sk_normalize_def lopsided_points_def ncols_def)

lemma lopsided_separate: "batch_separate lopsided_points [[1, 0], [1, 0]] 4
    = Inr [(lopsided_points, [1, 0]), (lopsided_points, [1, 0])]"
  by code_simp

lemma lopsided_batch_distance:
  "batch_distance (lopsided_points, [1, 0]) overlap_backend Probability
     = Inr (Some [0, 0, 1 / 2, 1 / 2])"
  by (simp add: batch_distance_def lopsided_points_def ncols_def run_probability_def Let_def
      ex_counts del: One_nat_def)

lemma lopsided_collect:
  "batch_collect (np_asarray [Some [0, 0, 1 / 2, 1 / 2], Some [0, 0, 1 / 2, 1 / 2]]) (2, 4)
     = Inr [[0, 0, 1 / 2, 1 / 2], [0, 0, 1 / 2, 1 / 2]]"
  by code_simp

lemma lopsided_batch:
  "batch_distances lopsided_points [[1, 0], [1, 0]] overlap_backend Probability
     = Inr [[0, 0, 1 / 2, 1 / 2], [0, 0, 1 / 2, 1 / 2]]"
proof -
  have mx: "max_experiments overlap_backend = 4" by (simp add: overlap_backend_def)
  have len: "(length [[1, 0], [1, 0 :: real]], length lopsided_points) = (2, 4)"
    by (simp add: lopsided_points_def)
  show ?thesis
    by (simp only: batch_distances_def mx len lopsided_separate sum.case list.map
        lopsided_batch_distance sequence.simps lopsided_collect)
qed

lemma lopsided_labels:
  "assign_labels [[0, 0, 1 / 2, 1 / 2], [0, 0, 1 / 2, 1 / 2]] = Inr [0, 0, 0, 0]"
  by code_simp

lemma lopsided_groupby: "groupby_mean lopsided_points [0, 0, 0, 0] = [(0, [4 / 5, 0])]"
  by code_simp

lemma sqrt_16_25: "sqrt (16 / 25) = 4 / 5"
  by (rule real_sqrt_unique) (simp_all add: power2_eq_square)

lemma lopsided_shift: "centers_shift [(0, [1, 0])] [(0, [1, 0]), (1, [1, 0])] = 0"
  by code_simp

lemma one_frame: "DataFrame [[1, 0]] = [(0, [1, 0])]"
  by code_simp

lemma two_frame: "DataFrame [[1, 0], [1, 0]] = [(0, [1, 0]), (1, [1, 0])]"
  by code_simp

lemma lopsided_new_centroids:
  "new_centroids lopsided_points [0, 0, 0, 0] Probability = Inr [(0, [1, 0])]"
proof -
  have "length lopsided_points = 4" by (simp add: lopsided_points_def)
  moreover have "preprocess [[4 / 5, 0]] Probability False = Inr [[1, 0]]"
    by (simp add: preprocess_def sk_normalize_def ncols_def sqrt_16_25)
  ultimately show ?thesis
    by (simp add: new_centroids_def lopsided_groupby one_frame del: One_nat_def)
qed

lemma lopsided_iteration:
  "fit_iteration lopsided_points True lopsided_start = (lopsided_fitted, Inr True)"
  by (simp add: fit_iteration_def lopsided_start_def lopsided_fitted_def example_model_def
      new_QuantumKMeans_def distances_to_def lopsided_batch lopsided_labels
      lopsided_new_centroids lopsided_shift del: One_nat_def)

lemma lopsided_init:
  "fit_init example_model lopsided_points True fixed_rng () = Inr (lopsided_points, lopsided_start)"
proof -
  have "sequence (map (item lopsided_points) [0..<2]) = Inr [[1, 0], [1, 0]]"
    by code_simp
  moreover have "length lopsided_points = 4" by (simp add: lopsided_points_def)
  moreover have "choice fixed_rng () 4 2 = ([0..<2], ())" by (simp add: fixed_rng_def)
  ultimately show ?thesis
    by (simp add: fit_init_def ex_fields lopsided_preprocess two_frame lopsided_start_def
        del: One_nat_def)
qed

subsection \<open>The convergence test\<close>

text \<open>
  The frame \<open>new_centroids - self.cluster_centers\<close>, summed over its columns and then over
  the sums, is the sum over the row labels of the two frames of the differences of the
  cells that both frames have.
\<close>

lemma df_width_ge: "(i, r) \<in> set df \<Longrightarrow> length r \<le> df_width df"
  unfolding df_width_def by (induction df) auto

lemma sum_columns:
  assumes "\<forall>row\<in>set rows. length row = w"
  shows "sum_list (map (\<lambda>j. sum_list (map (\<lambda>row. f (row ! j)) rows)) [0..<w])
         = (sum_list (map (\<lambda>row. sum_list (map f row)) rows) :: real)"
  using assms
proof (induction rows)
  case Nil
  show ?case by simp
next
  case (Cons row rows)
  then have len: "length row = w" by simp
  have "map (\<lambda>j. f (row ! j)) [0..<w] = map f row"
    using len by (intro nth_equalityI) auto
  then have "sum_list (map (\<lambda>j. f (row ! j)) [0..<w]) = sum_list (map f row)" by simp
  with Cons show ?case by (simp add: sum_list_addf)
qed

lemma nansum_simps [simp]:
  "nansum (replicate n None) = 0"
  "nansum (map (\<lambda>(x, y). Some (x - y)) ps @ replicate n None) = sum_list (map (\<lambda>(x, y). x - y) ps)"
  by (induction n) (auto simp: nansum_def o_def split_def)

lemma centers_shift_sum:
  "centers_shift new old =
     (\<Sum>i\<leftarrow>sort (remdups (map fst new @ map fst old)).
        case map_of new i of
          None \<Rightarrow> 0
        | Some r \<Rightarrow> (case map_of old i of
                       None \<Rightarrow> 0
                     | Some r' \<Rightarrow> (\<Sum>(a, b)\<leftarrow>zip r r'. a - b)))"
proof -
  let ?w = "max (df_width new) (df_width old)"
  let ?rows = "map snd (df_sub new old)"
  have len: "\<forall>row\<in>set ?rows. length row = ?w"
  proof -
    have "length (zip r r') \<le> ?w" if "map_of new i = Some r" for i r and r' :: "real list"
      using df_width_ge [OF map_of_SomeD [OF that]] by simp
    then show ?thesis by (auto simp: df_sub_def split: option.splits)
  qed
  have "centers_shift new old
          = sum_list (map (\<lambda>j. sum_list (map (\<lambda>row. (case row ! j of None \<Rightarrow> 0 | Some v \<Rightarrow> v)) ?rows))
              [0..<?w])"
    by (simp add: centers_shift_def sum_axis0_def nansum_def o_def split_def)
  also have "\<dots> = sum_list (map (\<lambda>row. nansum row) ?rows)"
    unfolding nansum_def using len by (rule sum_columns)
  also have "\<dots> = (\<Sum>i\<leftarrow>sort (remdups (map fst new @ map fst old)).
        case map_of new i of
          None \<Rightarrow> 0
        | Some r \<Rightarrow> (case map_of old i of
                       None \<Rightarrow> 0
                     | Some r' \<Rightarrow> (\<Sum>(a, b)\<leftarrow>zip r r'. a - b)))"
  proof -
    have "nansum (case map_of new i of
                    None \<Rightarrow> replicate ?w None
                  | Some r \<Rightarrow>
                      (case map_of old i of
                         None \<Rightarrow> replicate ?w None
                       | Some r' \<Rightarrow>
                           map (\<lambda>(x, y). Some (x - y)) (zip r r')
                           @ replicate (?w - length (zip r r')) None))
          = (case map_of new i of
               None \<Rightarrow> 0
             | Some r \<Rightarrow> (case map_of old i of
                            None \<Rightarrow> 0
                          | Some r' \<Rightarrow> (\<Sum>(a, b)\<leftarrow>zip r r'. a - b)))" for i
      by (simp split: option.splits)
    then show ?thesis by (simp add: df_sub_def o_def)
  qed
  finally show ?thesis .
qed

text \<open>
  Claim C7 as stated fails when the assignment leaves a centroid without points: the old
  centres have the rows 0 and 1, the new ones only row 0, equal to the old row 0. The sum
  of all coordinates of the new centres is 1 and that of the old ones is 2, yet the
  iteration declares convergence: the coordinates of the old row 1 are not summed.
\<close>

theorem dropped_centroid_counterexample:
  "fit_iteration lopsided_points True lopsided_start = (lopsided_fitted, Inr True)
   \<and> cluster_centers lopsided_start = Some [(0, [1, 0]), (1, [1, 0])]
   \<and> cluster_centers lopsided_fitted = Some [(0, [1, 0])]
   \<and> \<not> \<bar>sum_list (concat [[1, 0]]) - sum_list (concat [[1, 0], [1, 0 :: real]])\<bar>
          < tol lopsided_start"
  by (simp add: lopsided_iteration)
     (simp add: lopsided_start_def lopsided_fitted_def example_model_def new_QuantumKMeans_def)

text \<open>
  Claim C7, as the code has it: in an iteration of \<open>fit\<close> that completes, the labels are
  the nearest centres by the distance matrix, the new centres are computed from them, and
  \<open>finished\<close> is set exactly when the absolute value of one number is strictly below
  \<open>tol\<close>. The number is the sum, over the row labels of the new and of the old centres, of
  the new coordinate minus the old one for the rows that both have; a row that only one of
  them has adds nothing. While \<open>iteration\<close> is below \<open>max_iter\<close> the loop ends after this
  iteration if \<open>finished\<close> is set, and goes on if not.
\<close>

theorem convergence_decision:
  assumes "fit_iteration X batch self = (self', Inr fin)"
  shows "\<exists>old d new. cluster_centers self = Some old
      \<and> distances_to X (Some old) (backend self) (map_type self) batch = Inr d
      \<and> assign_labels d = Inr (labels self')
      \<and> new_centroids X (labels self') (map_type self) = Inr new
      \<and> cluster_centers self' = Some new
      \<and> fin = (\<bar>\<Sum>i\<leftarrow>sort (remdups (map fst new @ map fst old)).
                    case map_of new i of
                      None \<Rightarrow> 0
                    | Some r \<Rightarrow> (case map_of old i of
                                   None \<Rightarrow> 0
                                 | Some r' \<Rightarrow> (\<Sum>(a, b)\<leftarrow>zip r r'. a - b))\<bar> < tol self)
      \<and> (int iteration < max_iter self \<longrightarrow>
            fit_loop X batch self False iteration =
              (if fin then (self', Suc iteration, None)
               else fit_loop X batch self' False (Suc iteration)))"
proof -
  from fit_iteration_full [OF assms] obtain old d new where
    f: "cluster_centers self = Some old"
      "distances_to X (Some old) (backend self) (map_type self) batch = Inr d"
      "assign_labels d = Inr (labels self')"
      "new_centroids X (labels self') (map_type self) = Inr new"
      "cluster_centers self' = Some new"
      "fin = (\<bar>centers_shift new old\<bar> < tol self)" by blast
  from f(6) have "fin = (\<bar>\<Sum>i\<leftarrow>sort (remdups (map fst new @ map fst old)).
                    case map_of new i of
                      None \<Rightarrow> 0
                    | Some r \<Rightarrow> (case map_of old i of
                                   None \<Rightarrow> 0
                                 | Some r' \<Rightarrow> (\<Sum>(a, b)\<leftarrow>zip r r'. a - b))\<bar> < tol self)"
    by (simp only: centers_shift_sum)
  with f(1-5) fit_loop_step [OF assms, of iteration] show ?thesis by blast
qed

theorem convergence_decision_witness:
  "fit_iteration three_points True moved_start = (example_fitted, Inr False)
   \<and> cluster_centers moved_start = Some [(0, [3 / 5, 4 / 5]), (1, [0, 1])]
   \<and> distances_to three_points (Some [(0, [3 / 5, 4 / 5]), (1, [0, 1])]) overlap_backend
        Probability True = Inr [[1 / 2, 1 / 2, 1 / 2], [1 / 2, 0, 1 / 2]]
   \<and> labels example_fitted = [0, 1, 0]
   \<and> new_centroids three_points [0, 1, 0] Probability = Inr [(0, [1, 0]), (1, [0, 1])]
   \<and> cluster_centers example_fitted = Some [(0, [1, 0]), (1, [0, 1])]
   \<and> (\<Sum>i\<leftarrow>sort (remdups (map fst [(0 :: nat, [1, 0 :: real]), (1, [0, 1])]
                               @ map fst [(0 :: nat, [3 / 5, 4 / 5 :: real]), (1, [0, 1])])).
          case map_of [(0 :: nat, [1, 0 :: real]), (1, [0, 1])] i of
            None \<Rightarrow> 0
          | Some r \<Rightarrow> (case map_of [(0 :: nat, [3 / 5, 4 / 5 :: real]), (1, [0, 1])] i of
                         None \<Rightarrow> 0
                       | Some r' \<Rightarrow> (\<Sum>(a, b)\<leftarrow>zip r r'. a - b))) = - 2 / 5
   \<and> \<not> \<bar>- 2 / 5 :: real\<bar> < tol moved_start
   \<and> int 0 < max_iter moved_start
   \<and> fit_loop three_points True moved_start False 0
        = fit_loop three_points True example_fitted False (Suc 0)"
proof -
  have f: "cluster_centers moved_start = Some [(0, [3 / 5, 4 / 5]), (1, [0, 1])]"
    "backend moved_start = overlap_backend" "map_type moved_start = Probability"
    "tol moved_start = 1 / 10000" "max_iter moved_start = 300"
    "labels example_fitted = [0, 1, 0]"
    "cluster_centers example_fitted = Some [(0, [1, 0]), (1, [0, 1])]"
    by (simp_all add: moved_start_def example_fitted_def example_model_def new_QuantumKMeans_def)
  have s: "(\<Sum>i\<leftarrow>sort (remdups (map fst [(0 :: nat, [1, 0 :: real]), (1, [0, 1])]
                               @ map fst [(0 :: nat, [3 / 5, 4 / 5 :: real]), (1, [0, 1])])).
          case map_of [(0 :: nat, [1, 0 :: real]), (1, [0, 1])] i of
            None \<Rightarrow> 0
          | Some r \<Rightarrow> (case map_of [(0 :: nat, [3 / 5, 4 / 5 :: real]), (1, [0, 1])] i of
                         None \<Rightarrow> 0
                       | Some r' \<Rightarrow> (\<Sum>(a, b)\<leftarrow>zip r r'. a - b))) = - 2 / 5"
    by code_simp
  from convergence_decision [OF moved_iteration, of 0] obtain old d new where
    c: "cluster_centers moved_start = Some old"
      "distances_to three_points (Some old) (backend moved_start) (map_type moved_start) True
         = Inr d"
      "new_centroids three_points (labels example_fitted) (map_type moved_start) = Inr new"
      "cluster_centers example_fitted = Some new"
      "int 0 < max_iter moved_start \<longrightarrow>
         fit_loop three_points True moved_start False 0
           = (if False then (example_fitted, Suc 0, None)
              else fit_loop three_points True example_fitted False (Suc 0))"
    by blast
  from c(1) f(1) have old: "old = [(0, [3 / 5, 4 / 5]), (1, [0, 1])]" by simp
  from c(4) f(7) have new: "new = [(0, [1, 0]), (1, [0, 1])]" by simp
  from c(2) old f(2,3) have d: "distances_to three_points
      (Some [(0, [3 / 5, 4 / 5]), (1, [0, 1])]) overlap_backend Probability True = Inr d"
    by simp
  then have "d = [[1 / 2, 1 / 2, 1 / 2], [1 / 2, 0, 1 / 2]]"
    by (simp add: distances_to_def moved_batch)
  with d have d': "distances_to three_points
      (Some [(0, [3 / 5, 4 / 5]), (1, [0, 1])]) overlap_backend Probability True
        = Inr [[1 / 2, 1 / 2, 1 / 2], [1 / 2, 0, 1 / 2]]" by simp
  from c(3) new f(3,6) have n: "new_centroids three_points [0, 1, 0] Probability
      = Inr [(0, [1, 0]), (1, [0, 1])]" by simp
  from c(5) f(5) have l: "fit_loop three_points True moved_start False 0
        = fit_loop three_points True example_fitted False (Suc 0)" by simp
  have t: "\<not> \<bar>- 2 / 5 :: real\<bar> < tol moved_start" "int 0 < max_iter moved_start"
    by (simp_all add: f)
  from moved_iteration f(1,6,7) d' n s t l show ?thesis by blast
qed

subsection \<open>Seeding\<close>

lemma np_minimum_Inr:
  assumes "np_minimum closest rows = Inr dtc"
  shows "length dtc = length rows \<and> (\<forall>r\<in>set dtc. length r = length closest)"
  using assms by (auto simp: np_minimum_def list_all_iff split: if_splits)

lemma py_get_nonneg:
  assumes "py_get xs i = Inr v" and "0 \<le> i"
  shows "i < int (length xs) \<and> v = xs ! nat i"
  using assms by (auto simp: py_get_def split: if_splits)

lemma try_candidates_Inr:
  assumes "try_candidates rs X bk mt batch t closest pot g = Inr (best, closest', pot', g')"
    and "closest \<noteq> []"
  shows "0 \<le> best \<and> best < int (length closest) \<and> length closest' = length closest"
proof -
  obtain us g1 where rs: "random_sample (random_draw rs) t g = (us, g1)"
    by (cases "random_sample (random_draw rs) t g")
  let ?ids = "map (\<lambda>v. min (int (searchsorted (stable_cumsum closest) v))
                           (int (length closest) - 1)) (map (\<lambda>u. u * pot) us)"
  from assms(1) rs obtain candidates m dtc b where
    c: "sequence (map (py_get X) ?ids) = Inr candidates"
    and m: "(if batch then batch_distances X candidates bk mt
             else pairwise_distances X candidates bk) = Inr m"
    and d: "np_minimum closest m = Inr dtc"
    and b: "np_argmin (map sum_list dtc) = Inr b"
    and best: "best = ?ids ! b" and cl: "closest' = dtc ! b"
    by (auto simp: try_candidates_def Let_def simp del: map_map split: sum.splits)
  from c have lc: "length candidates = length ?ids" by (auto dest: sequence_length)
  from m have lm: "length m = length candidates"
    by (auto split: if_splits dest: batch_distances_shape pairwise_distances_shape)
  from d have ld: "length dtc = length m" and rows: "\<forall>r\<in>set dtc. length r = length closest"
    by (auto dest: np_minimum_Inr)
  from b have ne: "dtc \<noteq> []" and bb: "b = argmin (map sum_list dtc)"
    by (auto simp: np_argmin_def split: if_splits)
  from ne have "argmin (map sum_list dtc) < length (map sum_list dtc)"
    by (intro argmin_less) simp
  with bb have bl: "b < length dtc" by simp
  with ld lm lc have bi: "b < length ?ids" by simp
  then have "?ids ! b = min (int (searchsorted (stable_cumsum closest) (map (\<lambda>u. u * pot) us ! b)))
                           (int (length closest) - 1)"
    by (simp del: map_map)
  moreover from assms(2) have "0 < length closest" by simp
  ultimately have "0 \<le> ?ids ! b \<and> ?ids ! b < int (length closest)" by simp
  moreover from bl rows have "length (dtc ! b) = length closest" by simp
  ultimately show ?thesis using best cl by simp
qed

lemma single_row_concat:
  assumes "length d = Suc 0 \<and> (\<forall>row\<in>set d. length row = n)"
  shows "length (concat d) = n"
  using assms by (cases d) auto

lemma one_centre_distances:
  assumes "(if batch then batch_distances X [c] bk mt else pairwise_distances X [c] bk) = Inr d"
  shows "length (concat d) = length X"
proof -
  from assms have "length d = length [c] \<and> (\<forall>row\<in>set d. length row = length X)"
    by (auto split: if_splits dest: batch_distances_shape pairwise_distances_shape)
  then show ?thesis by (intro single_row_concat) simp
qed

lemma seed_step_inv:
  assumes step: "seed_step rs X bk mt ic batch t c (centers, indices, closest, pot, g)
                   = Inr (centers', indices', closest', pot', g')"
    and X: "X \<noteq> []" and c: "0 < c" "c < k"
    and len: "length centers = k" "length indices = k" "length closest = length X"
    and valid: "\<forall>i<c. 0 \<le> indices ! i \<and> indices ! i < int (length X)
                  \<and> centers ! i = X ! nat (indices ! i)"
  shows "length centers' = k \<and> length indices' = k \<and> length closest' = length X
     \<and> (\<forall>i<Suc c. 0 \<le> indices' ! i \<and> indices' ! i < int (length X)
                  \<and> centers' ! i = X ! nat (indices' ! i))"
proof -
  from X len(3) have cne: "closest \<noteq> []" by auto
  from step obtain res1 where "try_candidates rs X bk mt batch t closest pot g = Inr res1"
    by (cases "try_candidates rs X bk mt batch t closest pot g") (simp_all add: seed_step_def)
  then obtain best closest1 pot1 g1 where
    t1: "try_candidates rs X bk mt batch t closest pot g = Inr (best, closest1, pot1, g1)"
    by (cases res1) auto
  from step t1 obtain row where r1: "py_get X best = Inr row"
    by (cases "py_get X best") (simp_all add: seed_step_def)
  from try_candidates_Inr [OF t1 cne] len(3)
  have b1: "0 \<le> best" "best < int (length X)" and l1: "length closest1 = length X" by simp_all
  from py_get_nonneg [OF r1 b1(1)] have row: "row = X ! nat best" by simp
  show ?thesis
  proof (cases "c = 1 \<and> ic = Far")
    case False
    then have "(c = 1 \<and> ic = Far) = False" by simp
    with step t1 r1 have "Inr (centers[c := row], indices[c := best], closest1, pot1, g1)
        = (Inr (centers', indices', closest', pot', g')
            :: error + (vector list \<times> int list \<times> real list \<times> real \<times> 'a))"
      by (simp only: seed_step_def prod.case sum.case if_False)
    then have eq: "centers' = centers[c := row]" "indices' = indices[c := best]"
      "closest' = closest1"
      by simp_all
    have "0 \<le> indices' ! i \<and> indices' ! i < int (length X)
            \<and> centers' ! i = X ! nat (indices' ! i)" if "i < Suc c" for i
    proof (cases "i = c")
      case True
      with eq c(2) len b1 row show ?thesis by simp
    next
      case False
      with that have "i < c" by simp
      with valid eq False show ?thesis by simp
    qed
    with eq len l1 show ?thesis by simp
  next
    case True
    let ?d = "if batch then batch_distances X [centers[c := row] ! 1] bk mt
              else pairwise_distances X [centers[c := row] ! 1] bk"
    from True have "(c = 1 \<and> ic = Far) = True" by simp
    with step t1 r1 have far:
      "(case ?d of
          Inl e \<Rightarrow> Inl e
        | Inr d \<Rightarrow>
            (case try_candidates rs X bk mt batch t (concat d) (sum_list (concat d)) g1 of
               Inl e \<Rightarrow> Inl e
             | Inr (best2, closest2, pot2, g2) \<Rightarrow>
                 (case py_get X best2 of
                    Inl e \<Rightarrow> Inl e
                  | Inr row2 \<Rightarrow>
                      Inr (centers[c := row, 0 := row2], indices[c := best, 0 := best2],
                           closest2, pot2, g2))))
        = Inr (centers', indices', closest', pot', g')"
      by (simp only: seed_step_def prod.case sum.case if_True)
    from far obtain d where d: "?d = Inr d"
      by (cases ?d) simp_all
    let ?t2 = "try_candidates rs X bk mt batch t (concat d) (sum_list (concat d)) g1"
    from far d obtain res2 where "?t2 = Inr res2"
      by (cases ?t2) simp_all
    then obtain best2 closest2 pot2 g2 where t2: "?t2 = Inr (best2, closest2, pot2, g2)"
      by (cases res2) auto
    from far d t2 obtain row2 where r2: "py_get X best2 = Inr row2"
      by (cases "py_get X best2") simp_all
    from far d t2 r2 have eq: "centers' = centers[c := row, 0 := row2]"
        "indices' = indices[c := best, 0 := best2]" "closest' = closest2"
      by simp_all
    from one_centre_distances [OF d] have ld: "length (concat d) = length X" .
    have "concat d \<noteq> []"
    proof
      assume "concat d = []"
      then have "length (concat d) = 0" by (simp only: list.size)
      with ld X show False by simp
    qed
    from try_candidates_Inr [OF t2 this] ld
    have b2: "0 \<le> best2" "best2 < int (length X)" and l2: "length closest2 = length X"
      by simp_all
    from py_get_nonneg [OF r2 b2(1)] have row2: "row2 = X ! nat best2" by simp
    from True have c1: "c = 1" by simp
    have "0 \<le> indices' ! i \<and> indices' ! i < int (length X)
            \<and> centers' ! i = X ! nat (indices' ! i)" if "i < Suc c" for i
    proof (cases "i = 0")
      case True
      with eq c len b2 row2 show ?thesis by simp
    next
      case False
      with that c1 have "i = c" by simp
      with False eq c len b1 row show ?thesis by simp
    qed
    with eq len l2 show ?thesis by simp
  qed
qed

lemma seed_loop_inv:
  assumes "seed_loop (seed_step rs X bk mt ic batch t) [c..<k] (centers, indices, closest, pot, g)
             = Inr (centers', indices', rest)"
    and "X \<noteq> []" and "0 < c" and "c \<le> k"
    and "length centers = k" "length indices = k" "length closest = length X"
    and "\<forall>i<c. 0 \<le> indices ! i \<and> indices ! i < int (length X)
                  \<and> centers ! i = X ! nat (indices ! i)"
  shows "length centers' = k \<and> length indices' = k
     \<and> (\<forall>i<k. 0 \<le> indices' ! i \<and> indices' ! i < int (length X)
                  \<and> centers' ! i = X ! nat (indices' ! i))"
  using assms
proof (induction "k - c" arbitrary: c centers indices closest pot g)
  case 0
  then have "c = k" by simp
  with 0 show ?case by simp
next
  case (Suc n)
  then have ck: "c < k" by simp
  then have upt: "[c..<k] = c # [Suc c..<k]" by (rule upt_conv_Cons)
  from Suc.prems(1) upt obtain st1 where
    s1: "seed_step rs X bk mt ic batch t c (centers, indices, closest, pot, g) = Inr st1"
    by (cases "seed_step rs X bk mt ic batch t c (centers, indices, closest, pot, g)") simp_all
  obtain centers1 indices1 closest1 pot1 g1 where
    st1: "st1 = (centers1, indices1, closest1, pot1, g1)" by (cases st1)
  from s1 st1 have
    s: "seed_step rs X bk mt ic batch t c (centers, indices, closest, pot, g)
          = Inr (centers1, indices1, closest1, pot1, g1)" by simp
  from Suc.prems(1) upt s have
    l: "seed_loop (seed_step rs X bk mt ic batch t) [Suc c..<k]
              (centers1, indices1, closest1, pot1, g1) = Inr (centers', indices', rest)"
    by simp
  from seed_step_inv [OF s Suc.prems(2,3) ck Suc.prems(5,6,7,8)]
  have inv: "length centers1 = k" "length indices1 = k" "length closest1 = length X"
    "\<forall>i<Suc c. 0 \<le> indices1 ! i \<and> indices1 ! i < int (length X)
                  \<and> centers1 ! i = X ! nat (indices1 ! i)" by simp_all
  from Suc.hyps(2) have n: "n = k - Suc c" by simp
  from ck have "Suc c \<le> k" by simp
  from Suc.hyps(1) [OF n l Suc.prems(2) _ this inv] show ?case by simp
qed

lemma qkmeans_plusplus_Inr:
  assumes "qkmeans_plusplus X k bk mt ic batch rs g = Inr (centers, indices)"
  shows "length indices = k \<and> length centers = k
     \<and> (\<forall>i<k. 0 \<le> indices ! i \<and> indices ! i < int (length X)
                  \<and> centers ! i = X ! nat (indices ! i))"
proof -
  from assms have k: "k \<noteq> 0" and X: "X \<noteq> []"
    by (auto simp: qkmeans_plusplus_def split: if_splits)
  obtain center_id g1 where r: "randint rs g (length X) = (center_id, g1)"
    by (cases "randint rs g (length X)")
  from assms k X r obtain row where row: "item X center_id = Inr row"
    by (cases "item X center_id") (simp_all add: qkmeans_plusplus_def)
  let ?d = "if batch then batch_distances X [row] bk mt else pairwise_distances X [row] bk"
  from assms k X r row obtain d where d: "?d = Inr d"
    by (cases ?d) (simp_all add: qkmeans_plusplus_def)
  let ?l = "seed_loop (seed_step rs X bk mt ic batch (2 + nat \<lfloor>ln (real k)\<rfloor>)) [1..<k]
              ((replicate k (replicate (ncols X) 0))[0 := row],
               (replicate k (- 1))[0 := int center_id],
               concat d, sum_list (concat d), g1)"
  from assms k X r row d obtain res where res: "?l = Inr res"
    by (cases ?l) (simp_all add: qkmeans_plusplus_def)
  obtain cs ids rest where "res = (cs, ids, rest)" by (cases res)
  with assms k X r row d res have l: "?l = Inr (centers, indices, rest)"
    by (simp add: qkmeans_plusplus_def)
  from row have id: "center_id < length X" "row = X ! center_id"
    by (auto simp: item_def split: if_splits)
  from k have k1: "1 \<le> k" by simp
  have v: "\<forall>i<1. 0 \<le> (replicate k (- 1))[0 := int center_id] ! i
              \<and> (replicate k (- 1))[0 := int center_id] ! i < int (length X)
              \<and> (replicate k (replicate (ncols X) 0))[0 := row] ! i
                  = X ! nat ((replicate k (- 1))[0 := int center_id] ! i)"
    using k id by simp
  have len: "length ((replicate k (replicate (ncols X) 0))[0 := row]) = k"
    "length ((replicate k (- 1 :: int))[0 := int center_id]) = k" by simp_all
  have "0 < (1 :: nat)" by simp
  from seed_loop_inv [OF l X this k1 len one_centre_distances [OF d] v] show ?thesis
    by simp
qed

lemma try_candidates_cong:
  assumes "random_draw rs' = random_draw rs"
  shows "try_candidates rs' X bk mt batch t closest pot g
           = try_candidates rs X bk mt batch t closest pot g"
  unfolding try_candidates_def assms ..

lemma seed_step_cong:
  assumes "random_draw rs' = random_draw rs"
  shows "seed_step rs' X bk mt ic batch t = seed_step rs X bk mt ic batch t"
proof (intro ext)
  fix c st
  have e: "try_candidates rs' X bk mt batch t a b g = try_candidates rs X bk mt batch t a b g"
    for a b g using assms by (rule try_candidates_cong)
  show "seed_step rs' X bk mt ic batch t c st = seed_step rs X bk mt ic batch t c st"
    unfolding seed_step_def e ..
qed

lemma qkmeans_plusplus_cong:
  assumes "randint rs' = randint rs" and "random_draw rs' = random_draw rs"
  shows "qkmeans_plusplus X k bk mt ic batch rs' g = qkmeans_plusplus X k bk mt ic batch rs g"
proof -
  have e: "seed_step rs' X bk mt ic batch t = seed_step rs X bk mt ic batch t" for t
    using assms(2) by (rule seed_step_cong)
  show ?thesis unfolding qkmeans_plusplus_def e assms(1) ..
qed

text \<open>
  Claim C6 as stated fails: on three equal points the seeder returns row 0 twice.
\<close>

lemma two_trials: "2 + nat \<lfloor>ln (real 2)\<rfloor> = 2"
proof -
  have "0 \<le> ln (2 :: real)" by simp
  moreover have "ln (2 :: real) < 1" by (rule ln_2_less_1)
  ultimately have "\<lfloor>ln (2 :: real)\<rfloor> = 0" by (simp add: floor_eq_iff)
  then show ?thesis by simp
qed

lemma overlap_chunk3:
  "length p = 2 \<Longrightarrow>
   batch_distance ([p, q, r], y) overlap_backend Probability
     = Inr (Some [if p = y then 0 else 1 / 2, if q = y then 0 else 1 / 2,
                  if r = y then 0 else 1 / 2])"
  by (simp add: batch_distance_def ncols_def run_probability_def Let_def ex_counts
      del: One_nat_def)

lemma collect_one_centre:
  "batch_collect (np_asarray [Some [a, b, c]]) (1, 3) = Inr [[a, b, c]]"
  by (simp add: np_asarray_def batch_collect_def collect_index_def py_get_def reshape_def)

lemma collect_two_centres:
  "batch_collect (np_asarray [Some [a, b, c], Some [d, e, f]]) (2, 3)
     = Inr [[a, b, c], [d, e, f]]"
  by (simp add: np_asarray_def batch_collect_def collect_index_def py_get_def reshape_def
      upt_rec [of 0] upt_rec [of 1] upt_rec [of 2] upt_rec [of "Suc 0"])

lemma separate_one_centre:
  "batch_separate [p, q, r] [y] 4 = Inr [([p, q, r], y)]"
  by (simp add: batch_separate_def np_split_def Let_def)

lemma separate_two_centres:
  "batch_separate [p, q, r] [y, z] 4 = Inr [([p, q, r], y), ([p, q, r], z)]"
  by (simp add: batch_separate_def np_split_def Let_def upt_rec [of 0] upt_rec [of 1]
      upt_rec [of 2])

lemma overlap_one_centre:
  assumes "length p = 2"
  shows "batch_distances [p, q, r] [y] overlap_backend Probability
     = Inr [[if p = y then 0 else 1 / 2, if q = y then 0 else 1 / 2,
             if r = y then 0 else 1 / 2]]"
proof -
  have mx: "max_experiments overlap_backend = 4" by (simp add: overlap_backend_def)
  have len: "(length [y], length [p, q, r]) = (1, 3)" by simp
  show ?thesis
    by (simp only: batch_distances_def mx len separate_one_centre sum.case list.map
        overlap_chunk3 [OF assms] sequence.simps collect_one_centre)
qed

lemma overlap_two_centres:
  assumes "length p = 2"
  shows "batch_distances [p, q, r] [y, z] overlap_backend Probability
     = Inr [[if p = y then 0 else 1 / 2, if q = y then 0 else 1 / 2,
             if r = y then 0 else 1 / 2],
            [if p = z then 0 else 1 / 2, if q = z then 0 else 1 / 2,
             if r = z then 0 else 1 / 2]]"
proof -
  have mx: "max_experiments overlap_backend = 4" by (simp add: overlap_backend_def)
  have len: "(length [y, z], length [p, q, r]) = (2, 3)" by simp
  show ?thesis
    by (simp only: batch_distances_def mx len separate_two_centres sum.case list.map
        overlap_chunk3 [OF assms] sequence.simps collect_two_centres)
qed

lemma fixed_sample: "random_sample (random_draw fixed_rng) 2 () = ([1 / 2, 1 / 2], ())"
  by (simp add: fixed_rng_def eval_nat_numeral)

lemma repeated_try:
  "try_candidates fixed_rng [[1, 0], [1, 0], [1, 0]] overlap_backend Probability True 2
     [0, 0, 0] 0 () = Inr (0, [0, 0, 0], 0, ())"
proof -
  have ids: "map (\<lambda>v. min (int (searchsorted (stable_cumsum [0, 0, 0]) v))
                       (int (length [0, 0, 0 :: real]) - 1))
               (map (\<lambda>u. u * 0) [1 / 2, 1 / 2 :: real]) = [0, 0]"
    by (simp add: searchsorted_def stable_cumsum_def)
  have c: "sequence (map (py_get [[1, 0], [1, 0], [1, 0 :: real]]) [0, 0])
             = Inr [[1, 0], [1, 0]]"
    by (simp add: py_get_def)
  have d: "batch_distances [[1, 0], [1, 0], [1, 0]] [[1, 0], [1, 0]] overlap_backend Probability
             = Inr [[0, 0, 0], [0, 0, 0]]"
    by (simp add: overlap_two_centres)
  have m: "np_minimum [0, 0, 0] [[0, 0, 0], [0, 0, 0]] = Inr [[0, 0, 0], [0, 0, 0]]"
    by (simp add: np_minimum_def)
  have a: "np_argmin (map sum_list [[0, 0, 0], [0, 0, 0 :: real]]) = Inr 0"
    by (simp add: np_argmin_def)
  show ?thesis
    unfolding try_candidates_def fixed_sample prod.case Let_def ids c sum.case if_True d m a
    by simp
qed

theorem repeated_index_counterexample:
  "qkmeans_plusplus [[1, 0], [1, 0], [1, 0]] 2 overlap_backend Probability RandomCenter True
     fixed_rng () = Inr ([[1, 0], [1, 0]], [0, 0])
   \<and> \<not> distinct [0, 0 :: int]"
proof -
  have r: "randint fixed_rng () n = (0, ())" for n
    by (simp add: fixed_rng_def)
  have i: "item [[1, 0], [1, 0], [1, 0 :: real]] 0 = Inr [1, 0]" by (simp add: item_def)
  have d: "batch_distances [[1, 0], [1, 0], [1, 0]] [[1, 0]] overlap_backend Probability
             = Inr [[0, 0, 0]]"
    by (simp add: overlap_one_centre)
  have n: "ncols [[1, 0], [1, 0], [1, 0 :: real]] = 2" by (simp add: ncols_def)
  have pg: "py_get [[1, 0], [1, 0], [1, 0 :: real]] 0 = Inr [1, 0]" by (simp add: py_get_def)
  have st: "seed_step fixed_rng [[1, 0], [1, 0], [1, 0]] overlap_backend Probability RandomCenter
              True 2 (Suc 0) ([[1, 0], [0, 0]], [0, - 1], [0, 0, 0], 0, ())
            = Inr ([[1, 0], [1, 0]], [0, 0], [0, 0, 0], 0, ())"
    by (simp add: seed_step_def repeated_try pg)
  have u: "[Suc 0..<2] = [Suc 0]" by code_simp
  have s0: "(replicate 2 (replicate 2 0))[0 := [1, 0 :: real]] = [[1, 0], [0, 0]]"
    by (simp add: eval_nat_numeral)
  have s1: "(replicate 2 (- 1))[0 := 0 :: int] = [0, - 1]"
    by (simp add: eval_nat_numeral)
  have "qkmeans_plusplus [[1, 0], [1, 0], [1, 0]] 2 overlap_backend Probability RandomCenter True
     fixed_rng () = Inr ([[1, 0], [1, 0]], [0, 0])"
    unfolding qkmeans_plusplus_def two_trials
    by (simp add: r i d n s0 s1 u st)
  then show ?thesis by simp
qed

text \<open>
  Claim C6, as the code has it: a run of the seeder that returns gives \<open>n_clusters\<close> row
  indices and \<open>n_clusters\<close> centres; every index is a row index of the dataset and every
  centre is the row at its index. The indices need not be distinct. The result is the same
  for every generator that makes the same draws from the same state: nothing else of the
  generator is read.
\<close>

theorem seeder_indices:
  assumes "qkmeans_plusplus X k bk mt ic batch rs g = Inr (centers, indices)"
  shows "length indices = k \<and> length centers = k
     \<and> (\<forall>i<k. 0 \<le> indices ! i \<and> indices ! i < int (length X)
                  \<and> centers ! i = X ! nat (indices ! i))
     \<and> (\<forall>rs'. randint rs' = randint rs \<and> random_draw rs' = random_draw rs \<longrightarrow>
           qkmeans_plusplus X k bk mt ic batch rs' g = Inr (centers, indices))"
proof -
  have "qkmeans_plusplus X k bk mt ic batch rs' g = Inr (centers, indices)"
    if "randint rs' = randint rs \<and> random_draw rs' = random_draw rs" for rs'
    using qkmeans_plusplus_cong [of rs' rs X k bk mt ic batch g] that assms by simp
  with qkmeans_plusplus_Inr [OF assms] show ?thesis by blast
qed

lemma seeded_try:
  "try_candidates fixed_rng three_points overlap_backend Probability True 2 [0, 1 / 2, 0] (1 / 2) ()
     = Inr (1, [0, 0, 0], 0, ())"
proof -
  have ids: "map (\<lambda>v. min (int (searchsorted (stable_cumsum [0, 1 / 2, 0]) v))
                       (int (length [0, 1 / 2, 0 :: real]) - 1))
               (map (\<lambda>u. u * (1 / 2)) [1 / 2, 1 / 2 :: real]) = [1, 1]"
    by (simp add: searchsorted_def stable_cumsum_def)
  have c: "sequence (map (py_get three_points) [1, 1]) = Inr [[0, 1], [0, 1]]"
    by (simp add: py_get_def three_points_def)
  have d: "batch_distances three_points [[0, 1], [0, 1]] overlap_backend Probability
             = Inr [[1 / 2, 0, 1 / 2], [1 / 2, 0, 1 / 2]]"
    unfolding three_points_def by (simp add: overlap_two_centres)
  have m: "np_minimum [0, 1 / 2, 0] [[1 / 2, 0, 1 / 2], [1 / 2, 0, 1 / 2]]
             = Inr [[0, 0, 0], [0, 0, 0]]"
    by (simp add: np_minimum_def)
  have a: "np_argmin (map sum_list [[0, 0, 0], [0, 0, 0 :: real]]) = Inr 0"
    by (simp add: np_argmin_def)
  show ?thesis
    unfolding try_candidates_def fixed_sample prod.case Let_def ids c sum.case if_True d m a
    by simp
qed

lemma seeded_run:
  "qkmeans_plusplus three_points 2 overlap_backend Probability RandomCenter True fixed_rng ()
     = Inr ([[1, 0], [0, 1]], [0, 1])"
proof -
  have r: "randint fixed_rng () (length three_points) = (0, ())" by (simp add: fixed_rng_def)
  have i: "item three_points 0 = Inr [1, 0]" by (simp add: item_def three_points_def)
  have d: "batch_distances three_points [[1, 0]] overlap_backend Probability
             = Inr [[0, 1 / 2, 0]]"
    unfolding three_points_def by (simp add: overlap_one_centre)
  have n: "ncols three_points = 2" by (simp add: three_points_def ncols_def)
  have st: "seed_step fixed_rng three_points overlap_backend Probability RandomCenter True 2 1
              ([[1, 0], [0, 0]], [0, - 1], [0, 1 / 2, 0], 1 / 2, ())
            = Inr ([[1, 0], [0, 1]], [0, 1], [0, 0, 0], 0, ())"
  proof -
    have pg: "py_get three_points 1 = Inr [0, 1]" by (simp add: py_get_def three_points_def)
    show ?thesis by (simp add: seed_step_def seeded_try pg del: One_nat_def) simp
  qed
  have u: "[Suc 0..<2] = [Suc 0]" by code_simp
  have x: "three_points \<noteq> []" by (simp add: three_points_def)
  have s0: "(replicate 2 (replicate 2 0))[0 := [1, 0 :: real]] = [[1, 0], [0, 0]]"
    by (simp add: eval_nat_numeral)
  have s1: "(replicate 2 (- 1))[0 := 0 :: int] = [0, - 1]"
    by (simp add: eval_nat_numeral)
  note st' = st [unfolded One_nat_def]
  show ?thesis
    unfolding qkmeans_plusplus_def two_trials
    by (simp add: x r i d n s0 s1 u st')
qed

theorem seeder_indices_witness:
  "qkmeans_plusplus three_points 2 overlap_backend Probability RandomCenter True fixed_rng ()
     = Inr ([[1, 0], [0, 1]], [0, 1])
   \<and> length [0, 1 :: int] = 2 \<and> length [[1, 0], [0, 1 :: real]] = 2
   \<and> [0, 1 :: int] ! 0 < int (length three_points)
   \<and> [0, 1 :: int] ! 1 < int (length three_points)
   \<and> [[1, 0], [0, 1]] ! 0 = three_points ! nat ([0, 1] ! 0)
   \<and> [[1, 0], [0, 1]] ! 1 = three_points ! nat ([0, 1] ! 1)
   \<and> qkmeans_plusplus three_points 2 overlap_backend Probability RandomCenter True
        (fixed_rng\<lparr>choice := \<lambda>g n k. ([], g)\<rparr>) () = Inr ([[1, 0], [0, 1]], [0, 1])"
proof -
  from seeder_indices [OF seeded_run]
  have a: "length [0, 1 :: int] = 2 \<and> length [[1, 0], [0, 1 :: real]] = 2"
    and b: "\<forall>i<2. 0 \<le> [0, 1 :: int] ! i \<and> [0, 1 :: int] ! i < int (length three_points)
                  \<and> [[1, 0], [0, 1]] ! i = three_points ! nat ([0, 1] ! i)"
    and c: "\<forall>rs'. randint rs' = randint fixed_rng \<and> random_draw rs' = random_draw fixed_rng \<longrightarrow>
           qkmeans_plusplus three_points 2 overlap_backend Probability RandomCenter True rs' ()
             = Inr ([[1, 0], [0, 1]], [0, 1])"
    by blast+
  from b have b0: "[0, 1 :: int] ! 0 < int (length three_points)
                  \<and> [[1, 0], [0, 1]] ! 0 = three_points ! nat ([0, 1] ! 0)"
    by (simp del: nth_Cons_0 nth_Cons_Suc)
  have "(1 :: nat) < 2" by simp
  with b have b1: "[0, 1 :: int] ! 1 < int (length three_points)
                  \<and> [[1, 0], [0, 1]] ! 1 = three_points ! nat ([0, 1] ! 1)"
    by blast
  have "randint (fixed_rng\<lparr>choice := \<lambda>g n k. ([], g)\<rparr>) = randint fixed_rng
      \<and> random_draw (fixed_rng\<lparr>choice := \<lambda>g n k. ([], g)\<rparr>) = random_draw fixed_rng"
    by simp
  with c have c': "qkmeans_plusplus three_points 2 overlap_backend Probability RandomCenter True
        (fixed_rng\<lparr>choice := \<lambda>g n k. ([], g)\<rparr>) () = Inr ([[1, 0], [0, 1]], [0, 1])"
    by blast
  from seeded_run a b0 b1 c' show ?thesis by blast
qed

subsection \<open>The stored centroids\<close>

lemma zip_filter_members:
  assumes "length ls = length X"
  shows "map fst (filter (\<lambda>(r, l'). l' = l) (zip X ls))
           = map (\<lambda>i. X ! i) (filter (\<lambda>i. ls ! i = l) [0..<length X])"
proof -
  have "zip X ls = map (\<lambda>i. (X ! i, ls ! i)) [0..<length X]"
    using assms by (intro nth_equalityI) auto
  then show ?thesis by (simp add: filter_map o_def)
qed

lemma groupby_mean_nth:
  assumes "length ls = length X" and "k < card (set ls)"
  shows "groupby_mean X ls ! k =
           (sort (remdups ls) ! k,
            map (\<lambda>j. (\<Sum>i\<leftarrow>filter (\<lambda>i. ls ! i = sort (remdups ls) ! k) [0..<length X]. X ! i ! j)
                      / real (length (filter (\<lambda>i. ls ! i = sort (remdups ls) ! k) [0..<length X])))
              [0..<ncols X])"
proof -
  from assms(2) have k: "k < length (sort (remdups ls))"
    by (simp add: length_remdups_card_conv)
  then show ?thesis
    by (simp add: groupby_mean_def zip_filter_members [OF assms(1)] mean_def column_def o_def)
qed

lemma members_nonempty:
  assumes "length ls = length X" and "k < card (set ls)"
  shows "filter (\<lambda>i. ls ! i = sort (remdups ls) ! k) [0..<length X] \<noteq> []"
proof -
  from assms(2) have "k < length (sort (remdups ls))"
    by (simp add: length_remdups_card_conv)
  then have "sort (remdups ls) ! k \<in> set (sort (remdups ls))" by (rule nth_mem)
  then have "sort (remdups ls) ! k \<in> set ls" by simp
  then obtain i where "i < length ls" "ls ! i = sort (remdups ls) ! k"
    by (auto simp: in_set_conv_nth)
  with assms(1) show ?thesis by (auto simp: filter_empty_conv)
qed

lemma sk_normalize_nth:
  assumes "sk_normalize rows = Inr rows'" and "k < length rows"
  shows "rows' ! k = map (\<lambda>v. v / (if sqrt (\<Sum>v\<leftarrow>rows ! k. v * v) = 0 then 1
                                     else sqrt (\<Sum>v\<leftarrow>rows ! k. v * v))) (rows ! k)"
  using assms by (auto simp: sk_normalize_def Let_def split: if_splits)

lemma sum_list_div: "(\<Sum>v\<leftarrow>xs. f v / c) = (\<Sum>v\<leftarrow>xs. f v) / (c :: real)"
  by (induction xs) (simp_all add: add_divide_distrib)

lemma unit_norm:
  fixes mu :: "real list"
  assumes "sqrt (\<Sum>v\<leftarrow>mu. v * v) \<noteq> 0"
  shows "(\<Sum>v\<leftarrow>map (\<lambda>v. v / sqrt (\<Sum>v\<leftarrow>mu. v * v)) mu. v * v) = 1"
proof -
  let ?q = "\<Sum>v\<leftarrow>mu. v * v"
  have nn: "0 \<le> ?q" by (rule sum_list_nonneg) auto
  have "(\<Sum>v\<leftarrow>map (\<lambda>v. v / sqrt ?q) mu. v * v) = (\<Sum>v\<leftarrow>mu. (v * v) / (sqrt ?q * sqrt ?q))"
    by (simp add: o_def)
  also have "\<dots> = (\<Sum>v\<leftarrow>mu. (v * v) / ?q)" using nn by simp
  also have "\<dots> = ?q / ?q" by (rule sum_list_div)
  also have "\<dots> = 1" using assms by simp
  finally show ?thesis .
qed

lemma new_centroids_rows:
  assumes "new_centroids X ls mt = Inr nc"
  shows "length ls = length X \<and> length nc = card (set ls)
     \<and> (mt = Angle \<and> nc = groupby_mean X ls
        \<or> mt = Probability \<and> (\<exists>rows. sk_normalize (map snd (groupby_mean X ls)) = Inr rows
                                  \<and> nc = DataFrame rows))"
  using assms new_centroids_length [OF assms]
  by (cases mt) (auto simp: new_centroids_def preprocess_def split: if_splits sum.splits)

lemma DataFrame_nth: "k < length rows \<Longrightarrow> DataFrame rows ! k = (k, rows ! k)"
  by (simp add: DataFrame_def)

lemma new_centroids_nth:
  assumes "new_centroids X ls mt = Inr nc" and "k < length nc"
  shows "let l = sort (remdups ls) ! k;
             members = filter (\<lambda>i. ls ! i = l) [0..<length X];
             mu = map (\<lambda>j. (\<Sum>i\<leftarrow>members. X ! i ! j) / real (length members)) [0..<ncols X];
             nrm = sqrt (\<Sum>v\<leftarrow>mu. v * v)
         in members \<noteq> []
            \<and> nc ! k = (if mt = Angle then (l, mu)
                        else (k, map (\<lambda>v. v / (if nrm = 0 then 1 else nrm)) mu))
            \<and> (mt \<noteq> Angle \<and> nrm \<noteq> 0 \<longrightarrow> (\<Sum>v\<leftarrow>snd (nc ! k). v * v) = 1)"
proof -
  let ?l = "sort (remdups ls) ! k"
  let ?members = "filter (\<lambda>i. ls ! i = ?l) [0..<length X]"
  let ?mu = "map (\<lambda>j. (\<Sum>i\<leftarrow>?members. X ! i ! j) / real (length ?members)) [0..<ncols X]"
  let ?nrm = "sqrt (\<Sum>v\<leftarrow>?mu. v * v)"
  from new_centroids_rows [OF assms(1)] have len: "length ls = length X"
    and card: "length nc = card (set ls)"
    and cases: "mt = Angle \<and> nc = groupby_mean X ls
        \<or> mt = Probability \<and> (\<exists>rows. sk_normalize (map snd (groupby_mean X ls)) = Inr rows
                                  \<and> nc = DataFrame rows)" by auto
  from assms(2) card have k: "k < card (set ls)" by simp
  have g: "groupby_mean X ls ! k = (?l, ?mu)" by (rule groupby_mean_nth [OF len k])
  have ne: "?members \<noteq> []" by (rule members_nonempty [OF len k])
  have kg: "k < length (groupby_mean X ls)" using k by (simp add: length_groupby_mean)
  have row: "nc ! k = (if mt = Angle then (?l, ?mu)
                        else (k, map (\<lambda>v. v / (if ?nrm = 0 then 1 else ?nrm)) ?mu))"
  proof (rule disjE [OF cases])
    assume "mt = Angle \<and> nc = groupby_mean X ls"
    with g show ?thesis by simp
  next
    assume "mt = Probability \<and> (\<exists>rows. sk_normalize (map snd (groupby_mean X ls)) = Inr rows
                                  \<and> nc = DataFrame rows)"
    then obtain rows where p: "mt = Probability"
      and n: "sk_normalize (map snd (groupby_mean X ls)) = Inr rows" and d: "nc = DataFrame rows"
      by blast
    from sk_normalize_length [OF n] kg have kr: "k < length rows" by simp
    from kg have "k < length (map snd (groupby_mean X ls))" by simp
    from sk_normalize_nth [OF n this] kg g
    have "rows ! k = map (\<lambda>v. v / (if ?nrm = 0 then 1 else ?nrm)) ?mu" by simp
    with p d kr show ?thesis by (simp add: DataFrame_nth)
  qed
  have unit: "(\<Sum>v\<leftarrow>snd (nc ! k). v * v) = 1" if "mt \<noteq> Angle" "?nrm \<noteq> 0"
    using that row unit_norm [OF that(2)] by simp
  from ne row unit show ?thesis unfolding Let_def by blast
qed

lemma fit_init_start:
  assumes i: "fit_init self0 X0 batch rs g = Inr (X, start)"
    and o: "init self0 \<noteq> OtherInit"
    and s: "length (fst (choice rs g (length X) (n_clusters self0))) = n_clusters self0"
  shows "\<exists>c0. cluster_centers start = Some c0 \<and> length c0 = n_clusters self0"
proof -
  from i obtain X' where p: "preprocess X0 (map_type self0) (norm_relevance self0) = Inr X'"
    by (cases "preprocess X0 (map_type self0) (norm_relevance self0)")
       (simp_all add: fit_init_def)
  show ?thesis
  proof (cases "init self0")
    case QKMeansPP
    let ?q = "qkmeans_plusplus X' (n_clusters self0) (backend self0) (map_type self0)
                (initial_center self0) batch rs g"
    from i p QKMeansPP obtain res where q: "?q = Inr res"
      by (cases ?q) (simp_all add: fit_init_def)
    obtain centers indices where res: "res = (centers, indices)" by (cases res)
    from i p QKMeansPP q res
    have "start = self0\<lparr>cluster_centers := Some (DataFrame centers)\<rparr>"
      by (simp add: fit_init_def)
    moreover from q res qkmeans_plusplus_Inr [of X' "n_clusters self0" "backend self0"
        "map_type self0" "initial_center self0" batch rs g centers indices]
    have "length centers = n_clusters self0" by simp
    ultimately show ?thesis by simp
  next
    case RandomInit
    let ?r = "sequence (map (item X') (fst (choice rs g (length X') (n_clusters self0))))"
    from i p RandomInit have n: "\<not> length X' < n_clusters self0"
      by (auto simp: fit_init_def split: if_splits)
    with i p RandomInit obtain rows where r: "?r = Inr rows"
      by (cases ?r) (simp_all add: fit_init_def)
    from i p RandomInit n r
    have e: "X = X'" "start = self0\<lparr>cluster_centers := Some (DataFrame rows)\<rparr>"
      by (simp_all add: fit_init_def)
    from sequence_length [OF r] s e(1) have "length rows = n_clusters self0" by simp
    with e(2) show ?thesis by simp
  next
    case OtherInit
    with o show ?thesis by simp
  qed
qed

text \<open>
  Claim C9. Let \<open>fit\<close> have initialised the centres (\<open>init\<close> is \<open>'random'\<close> or
  \<open>'qk-means++'\<close>, and \<open>X.sample(n)\<close> has drawn \<open>n\<close> rows), and let the loop have run any
  number of iterations. After one more iteration that completes there is one stored
  centroid for each distinct label of the new assignment; the centroid of position \<open>k\<close>
  belongs to the \<open>k\<close>-th label in ascending order and is the mean of the points with that
  label, coordinate by coordinate, under the angle encoding, and that mean divided by its
  Euclidean norm (a vector of norm 1 unless the mean is 0) and labelled \<open>k\<close> under the
  probability encoding. There were at most \<open>n_clusters\<close> centroids before. If one of them
  got no point, fewer than \<open>n_clusters\<close> are stored afterwards, in every object that
  further iterations produce and in the object the loop returns.
\<close>

theorem centroid_rows:
  assumes "fit_init self0 X0 batch rs g = Inr (X, start)"
    and "init self0 \<noteq> OtherInit"
    and "length (fst (choice rs g (length X) (n_clusters self0))) = n_clusters self0"
    and "fit_reaches X batch start self"
    and "fit_iteration X batch self = (self', Inr fin)"
  shows "\<exists>old new. cluster_centers self = Some old \<and> cluster_centers self' = Some new
     \<and> length (labels self') = length X
     \<and> length new = card (set (labels self'))
     \<and> (\<forall>k<length new.
          let l = sort (remdups (labels self')) ! k;
              members = filter (\<lambda>i. labels self' ! i = l) [0..<length X];
              mu = map (\<lambda>j. (\<Sum>i\<leftarrow>members. X ! i ! j) / real (length members)) [0..<ncols X];
              nrm = sqrt (\<Sum>v\<leftarrow>mu. v * v)
          in members \<noteq> []
             \<and> new ! k = (if map_type self = Angle then (l, mu)
                          else (k, map (\<lambda>v. v / (if nrm = 0 then 1 else nrm)) mu))
             \<and> (map_type self \<noteq> Angle \<and> nrm \<noteq> 0 \<longrightarrow> (\<Sum>v\<leftarrow>snd (new ! k). v * v) = 1))
     \<and> length old \<le> n_clusters self0
     \<and> length new \<le> length old
     \<and> ((\<exists>j<length old. j \<notin> set (labels self')) \<longrightarrow>
           length new < n_clusters self0
           \<and> (\<forall>s. fit_reaches X batch self' s \<longrightarrow>
                 (\<exists>c. cluster_centers s = Some c \<and> length c < n_clusters self0))
           \<and> (\<forall>finished iteration. \<exists>final.
                 cluster_centers (fst (fit_loop X batch self' finished iteration)) = Some final
                 \<and> length final < n_clusters self0))"
proof -
  from fit_init_start [OF assms(1,2,3)] obtain c0 where
    c0: "cluster_centers start = Some c0" "length c0 = n_clusters self0" by blast
  from fit_iteration_Inr [OF assms(5)] obtain old nc where
    old: "cluster_centers self = Some old"
    and nc: "new_centroids X (labels self') (map_type self) = Inr nc"
    and new: "cluster_centers self' = Some nc"
    and b: "\<forall>l\<in>set (labels self'). l < length old" by blast
  from fit_reaches_centers [OF assms(4) c0(1)] old c0(2)
  have bound: "length old \<le> n_clusters self0" by simp
  from new_centroids_rows [OF nc] have ll: "length (labels self') = length X"
    and len: "length nc = card (set (labels self'))" by simp_all
  have le: "length nc \<le> length old" using len card_labels_le(1) [OF b] by simp
  have rows: "\<forall>k<length nc.
          let l = sort (remdups (labels self')) ! k;
              members = filter (\<lambda>i. labels self' ! i = l) [0..<length X];
              mu = map (\<lambda>j. (\<Sum>i\<leftarrow>members. X ! i ! j) / real (length members)) [0..<ncols X];
              nrm = sqrt (\<Sum>v\<leftarrow>mu. v * v)
          in members \<noteq> []
             \<and> nc ! k = (if map_type self = Angle then (l, mu)
                          else (k, map (\<lambda>v. v / (if nrm = 0 then 1 else nrm)) mu))
             \<and> (map_type self \<noteq> Angle \<and> nrm \<noteq> 0 \<longrightarrow> (\<Sum>v\<leftarrow>snd (nc ! k). v * v) = 1)"
    using new_centroids_nth [OF nc] by blast
  have d: "length nc < n_clusters self0
           \<and> (\<forall>s. fit_reaches X batch self' s \<longrightarrow>
                 (\<exists>c. cluster_centers s = Some c \<and> length c < n_clusters self0))
           \<and> (\<forall>finished iteration. \<exists>final.
                 cluster_centers (fst (fit_loop X batch self' finished iteration)) = Some final
                 \<and> length final < n_clusters self0)"
    if j: "\<exists>j<length old. j \<notin> set (labels self')"
  proof -
    from j obtain j where "j < length old" "j \<notin> set (labels self')" by blast
    from card_labels_le(2) [OF b this] len have "length nc < length old" by simp
    with bound have lt: "length nc < n_clusters self0" by simp
    have "\<exists>c. cluster_centers s = Some c \<and> length c < n_clusters self0"
      if "fit_reaches X batch self' s" for s
      using fit_reaches_centers [OF that new] lt by auto
    moreover have "\<exists>final. cluster_centers (fst (fit_loop X batch self' finished iteration))
                     = Some final \<and> length final < n_clusters self0" for finished iteration
      using fit_loop_centers [OF new, of X batch finished iteration] lt by auto
    ultimately show ?thesis using lt by blast
  qed
  from old new ll len rows bound le d show ?thesis by blast
qed

theorem centroid_rows_witness:
  "fit_init example_model lopsided_points True fixed_rng () = Inr (lopsided_points, lopsided_start)
   \<and> init example_model \<noteq> OtherInit
   \<and> length (fst (choice fixed_rng () (length lopsided_points) (n_clusters example_model)))
        = n_clusters example_model
   \<and> fit_reaches lopsided_points True lopsided_start lopsided_start
   \<and> fit_iteration lopsided_points True lopsided_start = (lopsided_fitted, Inr True)
   \<and> cluster_centers lopsided_start = Some [(0, [1, 0]), (1, [1, 0])]
   \<and> labels lopsided_fitted = [0, 0, 0, 0]
   \<and> cluster_centers lopsided_fitted = Some [(0, [1, 0])]
   \<and> [(0 :: nat, [1, 0 :: real])] ! 0 =
        (0, map (\<lambda>v. v / sqrt (4 / 5 * (4 / 5) + 0 * 0))
              [(1 + 1 + 3 / 5 + 3 / 5) / 4, (0 + 0 + 4 / 5 + - 4 / 5) / 4])
   \<and> (\<Sum>v\<leftarrow>snd ([(0 :: nat, [1, 0 :: real])] ! 0). v * v) = 1
   \<and> (1 :: nat) < length [(0 :: nat, [1, 0 :: real]), (1, [1, 0])]
   \<and> 1 \<notin> set (labels lopsided_fitted)
   \<and> n_clusters example_model = 2
   \<and> (\<forall>finished iteration. \<exists>final.
         cluster_centers (fst (fit_loop lopsided_points True lopsided_fitted finished iteration))
           = Some final \<and> length final < 2)"
proof -
  have f: "init example_model \<noteq> OtherInit" "n_clusters example_model = 2"
    "cluster_centers lopsided_start = Some [(0, [1, 0]), (1, [1, 0])]"
    "labels lopsided_fitted = [0, 0, 0, 0]"
    "cluster_centers lopsided_fitted = Some [(0, [1, 0])]"
    by (simp_all add: lopsided_start_def lopsided_fitted_def example_model_def
        new_QuantumKMeans_def)
  have c: "length (fst (choice fixed_rng () (length lopsided_points) (n_clusters example_model)))
        = n_clusters example_model"
    by (simp add: fixed_rng_def)
  have r: "fit_reaches lopsided_points True lopsided_start lopsided_start"
    by (rule fit_reaches.start)
  have row: "[(0 :: nat, [1, 0 :: real])] ! 0 =
        (0, map (\<lambda>v. v / sqrt (4 / 5 * (4 / 5) + 0 * 0))
              [(1 + 1 + 3 / 5 + 3 / 5) / 4, (0 + 0 + 4 / 5 + - 4 / 5) / 4])"
    by (simp add: sqrt_16_25)
  have j: "\<exists>j<length [(0 :: nat, [1, 0 :: real]), (1, [1, 0])]. j \<notin> set [0, 0, 0, 0 :: nat]"
    by (rule exI [of _ 1]) simp
  from centroid_rows [OF lopsided_init f(1) c r lopsided_iteration] f(3,4,5) j
  have "2 \<le> n_clusters example_model \<longrightarrow> True"
    and d: "(\<forall>s. fit_reaches lopsided_points True lopsided_fitted s \<longrightarrow>
         (\<exists>c. cluster_centers s = Some c \<and> length c < n_clusters example_model))
      \<and> (\<forall>finished iteration. \<exists>final.
         cluster_centers (fst (fit_loop lopsided_points True lopsided_fitted finished iteration))
           = Some final \<and> length final < n_clusters example_model)"
    by simp_all
  from d f(2) have d': "(\<forall>s. fit_reaches lopsided_points True lopsided_fitted s \<longrightarrow>
         (\<exists>c. cluster_centers s = Some c \<and> length c < 2))
      \<and> (\<forall>finished iteration. \<exists>final.
         cluster_centers (fst (fit_loop lopsided_points True lopsided_fitted finished iteration))
           = Some final \<and> length final < 2)" by simp
  have u: "(\<Sum>v\<leftarrow>snd ([(0 :: nat, [1, 0 :: real])] ! 0). v * v) = 1" by simp
  have m: "(1 :: nat) < length [(0 :: nat, [1, 0 :: real]), (1, [1, 0])]"
    "1 \<notin> set (labels lopsided_fitted)" by (simp_all add: f)
  from lopsided_init f c r lopsided_iteration row u m d' show ?thesis by blast
qed

subsection \<open>The iteration counter\<close>

text \<open>
  Claim C10: on an object as the constructor leaves it, after any sequence of calls of
  \<open>fit\<close> the counter \<open>n_iter_\<close> is the sum of the iterations that the calls have run.
\<close>

theorem n_iter_cumulative:
  assumes "fit_calls rs (new_QuantumKMeans bk k i t m mt nr ic) calls = (self', its)"
  shows "n_iter self' = sum_list its \<and> length its = length calls"
  using fit_calls_n_iter [OF assms] by (simp add: new_QuantumKMeans_def)

theorem n_iter_cumulative_witness:
  "fit_calls fixed_rng example_model [(three_points, True, ()), (three_points, True, ())]
     = (example_refitted, [1, 1])
   \<and> n_iter example_refitted = 2"
  using n_iter_cumulative [of fixed_rng overlap_backend 2 RandomInit "1 / 10000" 300 Probability
      False RandomCenter "[(three_points, True, ()), (three_points, True, ())]"
      example_refitted "[1, 1]"]
    ex_calls
  by (simp add: example_model_def)

subsection \<open>Batched against unbatched distances\<close>

lemma four_separate3:
  "batch_separate four_points three_centers 4
     = Inr [(four_points, [1, 0]), (four_points, [0, 1]), (four_points, [1, 1])]"
  by code_simp

lemma four_separate2:
  "batch_separate four_points [[1, 0], [0, 1]] 4
     = Inr [(four_points, [1, 0]), (four_points, [0, 1])]"
  by code_simp

lemma four_batch_distance:
  "length y = 2 \<Longrightarrow>
     batch_distance (four_points, y) quarter_backend Angle = Inr (Some [1 / 4, 1 / 4, 1 / 4, 1 / 4])"
  by (simp add: batch_distance_def four_points_def ncols_def run_angle_def angle_circuit_of_def
      quarter_angle2)

lemma four_collect3:
  "batch_collect (Floats [[1 / 4, 1 / 4, 1 / 4, 1 / 4], [1 / 4, 1 / 4, 1 / 4, 1 / 4],
     [1 / 4, 1 / 4, 1 / 4, 1 / 4]]) (3, 4) = Inl IndexError"
  by (simp add: batch_collect_def collect_index_def py_get_def upt_rec [of 0] upt_rec [of 1]
      upt_rec [of 2] upt_rec [of 3])

lemma four_collect2:
  "batch_collect (np_asarray [Some [1 / 4, 1 / 4, 1 / 4, 1 / 4], Some [1 / 4, 1 / 4, 1 / 4, 1 / 4]])
     (2, 4) = Inr [[1 / 4, 1 / 4, 1 / 4, 1 / 4], [1 / 4, 1 / 4, 1 / 4, 1 / 4]]"
  by (simp add: np_asarray_def batch_collect_def collect_index_def py_get_def reshape_def
      upt_rec [of 0] upt_rec [of 1] upt_rec [of 2] upt_rec [of "Suc 0"])

lemma four_batch3:
  "batch_distances four_points three_centers quarter_backend Angle = Inl IndexError"
proof -
  have mx: "max_experiments quarter_backend = 4" by (simp add: quarter_backend_def)
  have len: "length three_centers = 3" "length four_points = 4"
    by (simp_all add: three_centers_def four_points_def)
  show ?thesis
    by (simp add: batch_distances_def mx four_separate3 four_batch_distance np_asarray_def len
        four_collect3)
qed

lemma four_batch2:
  "batch_distances four_points [[1, 0], [0, 1]] quarter_backend Angle
     = Inr [[1 / 4, 1 / 4, 1 / 4, 1 / 4], [1 / 4, 1 / 4, 1 / 4, 1 / 4]]"
proof -
  have mx: "max_experiments quarter_backend = 4" by (simp add: quarter_backend_def)
  have len: "(length [[1, 0], [0, 1 :: real]], length four_points) = (2, 4)"
    by (simp add: four_points_def)
  have bd: "batch_distance (four_points, [1, 0]) quarter_backend Angle
              = Inr (Some [1 / 4, 1 / 4, 1 / 4, 1 / 4])"
    "batch_distance (four_points, [0, 1]) quarter_backend Angle
              = Inr (Some [1 / 4, 1 / 4, 1 / 4, 1 / 4])"
    by (simp_all add: four_batch_distance)
  show ?thesis
    by (simp only: batch_distances_def mx len four_separate2 sum.case list.map bd
        sequence.simps four_collect2)
qed

lemma quarter_distance2:
  "length x = 2 \<Longrightarrow> length y = 2 \<Longrightarrow> distance x y quarter_backend Angle False = Inr (Some (1 / 4))"
  by (simp add: distance_def Let_def quarter_angle2)

lemma four_pairwise3:
  "pairwise_distances four_points three_centers quarter_backend
     = Inr [[1 / 4, 1 / 4, 1 / 4, 1 / 4], [1 / 4, 1 / 4, 1 / 4, 1 / 4], [1 / 4, 1 / 4, 1 / 4, 1 / 4]]"
  by (simp add: pairwise_distances_def four_points_def three_centers_def quarter_distance2)

lemma four_pairwise2:
  "pairwise_distances four_points [[1, 0], [0, 1]] quarter_backend
     = Inr [[1 / 4, 1 / 4, 1 / 4, 1 / 4], [1 / 4, 1 / 4, 1 / 4, 1 / 4]]"
  by (simp add: pairwise_distances_def four_points_def quarter_distance2)

text \<open>
  Claim C1 at four points, three centres and batches of four, with a backend that answers
  every circuit 768 to 256: the unbatched estimator returns the matrix of three rows of
  four distances; \<open>batch_distances\<close> raises \<open>IndexError\<close>, because the second loop of
  \<open>batch_collect\<close> reads row \<open>3*2 - 3 + 1 = 4\<close> of three. With the first two centres alone
  the batched matrix is the unbatched one.
\<close>

theorem batched_three_centers_raises:
  "pairwise_distances four_points three_centers quarter_backend
     = Inr [[1 / 4, 1 / 4, 1 / 4, 1 / 4], [1 / 4, 1 / 4, 1 / 4, 1 / 4], [1 / 4, 1 / 4, 1 / 4, 1 / 4]]
   \<and> batch_distances four_points three_centers quarter_backend Angle = Inl IndexError
   \<and> batch_distances four_points [[1, 0], [0, 1]] quarter_backend Angle
       = pairwise_distances four_points [[1, 0], [0, 1]] quarter_backend"
  by (simp only: four_pairwise3 four_pairwise2 four_batch3 four_batch2 simp_thms)

subsection \<open>\<open>predict\<close> with weights\<close>

lemma ex_weighted: "map (\<lambda>r. map (\<lambda>(a, b). a * b) (zip r [1, 1])) three_points = three_points"
  by (simp add: three_points_def)

lemma ex_fitted_fields:
  "map_type example_fitted = Probability" "norm_relevance example_fitted = False"
  "backend example_fitted = overlap_backend"
  "cluster_centers example_fitted = Some [(0, [1, 0]), (1, [0, 1])]"
  by (simp_all add: example_fitted_def example_model_def new_QuantumKMeans_def)

text \<open>
  Claim C5 on the fitted example: without weights \<open>predict\<close> returns the labels of the
  nearest centres; with the weights \<open>(1, 1)\<close> and \<open>batch\<close> left at its default it raises
  \<open>UnboundLocalError\<close>, because line 652 drops the matrix that \<open>batch_distances\<close> returns.
\<close>

theorem weighted_batched_predict_raises:
  "predict example_fitted three_points None True = Inr [0, 1, 0]
   \<and> predict example_fitted three_points (Some [1, 1]) True = Inl UnboundLocalError
   \<and> cluster_centers example_fitted = Some [(0, [1, 0]), (1, [0, 1])]"
proof -
  have "ncols three_points = 2" by (simp add: three_points_def ncols_def)
  then show ?thesis
    by (simp add: predict_def ex_fitted_fields ex_preprocess distances_to_def ex_batch ex_labels
        ex_weighted del: One_nat_def)
qed

end
